theory Spec2Isabelle
  imports Complex_Main "HOL-Library.Code_Target_Nat"
begin

section \<open>JavaScript values and strings\<close>

text \<open>
  The server (\<^verbatim>\<open>src/server.js\<close>, and its earlier copy \<^verbatim>\<open>src/Backend/server.js\<close>)
  receives JSON request bodies. A field that the handlers treat as text is a
  \<^typ>\<open>string option\<close> (\<open>None\<close> is an absent field, \<open>undefined\<close>); the seat
  \<open>asiento\<close> and the client price \<open>precio\<close> may be a number or a string and are a
  \<open>jsval\<close>. A number in a \<open>jsval\<close> is an integer. A string is its sequence of UTF-8
  bytes, as it arrives in the request body; a string with an unpaired surrogate, which has
  no such encoding, is not represented.
\<close>

datatype jsval = JUndefined | JNull | JBool bool | JNum int | JStr string

text \<open>JavaScript truthiness, as used by \<^verbatim>\<open>!x\<close> and \<^verbatim>\<open>x || y\<close>.\<close>

fun truthy :: "jsval \<Rightarrow> bool" where
  "truthy JUndefined = False"
| "truthy JNull = False"
| "truthy (JBool b) = b"
| "truthy (JNum n) = (n \<noteq> 0)"
| "truthy (JStr s) = (s \<noteq> [])"

fun truthyS :: "string option \<Rightarrow> bool" where
  "truthyS None = False"
| "truthyS (Some s) = (s \<noteq> [])"

text \<open>\<^verbatim>\<open>x || d\<close> on a text field with a string default.\<close>

fun orElse :: "string option \<Rightarrow> string \<Rightarrow> string" where
  "orElse None d = d"
| "orElse (Some s) d = (if s = [] then d else s)"

text \<open>
  What the JavaScript run time brings and the model does not interpret. They are
  parameters of every function that uses them:
  \<^item> \<open>numToString\<close> is \<^verbatim>\<open>Number.prototype.toString\<close> and \<open>parseFloat\<close> is
    \<^verbatim>\<open>parseFloat\<close> (\<open>None\<close> is \<^verbatim>\<open>NaN\<close>);
  \<^item> \<open>lowercaseMapping\<close>, \<open>cased\<close> and \<open>caseIgnorable\<close> are the tables of the Unicode
    Character Database that \<^verbatim>\<open>String.prototype.toLowerCase\<close> reads: the lower-case
    mapping of a code point (a list, since U+0130 maps to two code points), and the
    properties Cased and Case_Ignorable.
\<close>

record builtins =
  numToString :: "rat \<Rightarrow> string"
  parseFloat :: "string option \<Rightarrow> rat option"
  lowercaseMapping :: "nat \<Rightarrow> nat list"
  cased :: "nat \<Rightarrow> bool"
  caseIgnorable :: "nat \<Rightarrow> bool"

text \<open>Decimal digits of a natural number, most significant first.\<close>

fun digitsOf :: "nat \<Rightarrow> string" where
  "digitsOf n =
     (if n < 10 then [char_of (48 + n)]
      else digitsOf (n div 10) @ [char_of (48 + n mod 10)])"

declare digitsOf.simps [simp del]

definition decimal :: "int \<Rightarrow> string" where
  "decimal n = (if n < 0 then CHR ''-'' # digitsOf (nat (- n)) else digitsOf (nat n))"

text \<open>
  \<^verbatim>\<open>String(n)\<close> for an integer \<open>n\<close>: it is the decimal digits of \<open>n\<close> as long as \<open>n\<close> is a
  safe integer (at most \<^verbatim>\<open>Number.MAX_SAFE_INTEGER\<close>, \<open>2\<^sup>5\<^sup>3 - 1\<close>, in absolute value).
  Beyond that a number is rounded and, from \<open>10\<^sup>2\<^sup>1\<close>, printed with an exponent: there
  the result is left to \<open>numToString\<close>.
\<close>

definition numberToString :: "builtins \<Rightarrow> int \<Rightarrow> string" where
  "numberToString js n =
     (if \<bar>n\<bar> \<le> 9007199254740991 then decimal n else numToString js (of_int n))"

text \<open>\<^verbatim>\<open>String(v)\<close>.\<close>

fun String_js :: "builtins \<Rightarrow> jsval \<Rightarrow> string" where
  "String_js js JUndefined = ''undefined''"
| "String_js js JNull = ''null''"
| "String_js js (JBool b) = (if b then ''true'' else ''false'')"
| "String_js js (JNum n) = numberToString js n"
| "String_js js (JStr s) = s"

subsection \<open>Code points\<close>

text \<open>
  \<^verbatim>\<open>trim\<close> and \<^verbatim>\<open>toLowerCase\<close> read a string as its sequence of code points.
  \<open>utf8\<close> is the encoding of a sequence of code points and \<open>utf8_decode\<close> reads it back:
  the lead byte tells how many continuation bytes follow, each of which carries six bits.
  A byte that is not the start of a complete character stands for itself.
\<close>

definition utf8_char :: "nat \<Rightarrow> string" where
  "utf8_char c =
     (if c < 0x80 then [char_of c]
      else if c < 0x800 then [char_of (0xC0 + c div 64), char_of (0x80 + c mod 64)]
      else if c < 0x10000 then
        [char_of (0xE0 + c div 4096), char_of (0x80 + c div 64 mod 64),
         char_of (0x80 + c mod 64)]
      else
        [char_of (0xF0 + c div 262144), char_of (0x80 + c div 4096 mod 64),
         char_of (0x80 + c div 64 mod 64), char_of (0x80 + c mod 64)])"

definition utf8 :: "nat list \<Rightarrow> string" where
  "utf8 cs = concat (map utf8_char cs)"

definition continuation :: "char \<Rightarrow> nat" where
  "continuation b = (of_char b :: nat) mod 64"

definition followers :: "nat \<Rightarrow> nat" where
  "followers n = (if n < 0xC0 then 0 else if n < 0xE0 then 1 else if n < 0xF0 then 2 else 3)"

fun codePointOf :: "nat \<Rightarrow> string \<Rightarrow> nat" where
  "codePointOf n [] = n"
| "codePointOf n [b1] = (n - 0xC0) * 64 + continuation b1"
| "codePointOf n [b1, b2] = (n - 0xE0) * 4096 + continuation b1 * 64 + continuation b2"
| "codePointOf n (b1 # b2 # b3 # bs) =
     (n - 0xF0) * 262144 + continuation b1 * 4096 + continuation b2 * 64 + continuation b3"

function utf8_decode :: "string \<Rightarrow> nat list" where
  "utf8_decode [] = []"
| "utf8_decode (b # bs) =
     (let n = of_char b;
          k = (if followers n \<le> length bs then followers n else 0)
      in codePointOf n (take k bs) # utf8_decode (drop k bs))"
  by pat_completeness auto
termination
  by (relation "measure length") auto

definition isCodePoint :: "nat \<Rightarrow> bool" where
  "isCodePoint c = (c < 0x110000)"

text \<open>
  \<^verbatim>\<open>String.prototype.trim\<close> removes from both ends the code points that ECMAScript
  calls WhiteSpace (tab, vertical tab, form feed, U+FEFF and the space separators
  U+0020, U+00A0, U+1680, U+2000 to U+200A, U+202F, U+205F, U+3000) and LineTerminator
  (line feed, carriage return, U+2028, U+2029).
\<close>

definition isWhiteSpace :: "nat \<Rightarrow> bool" where
  "isWhiteSpace c =
     (c \<in> {0x09, 0x0A, 0x0B, 0x0C, 0x0D, 0x20, 0xA0, 0x1680, 0x2028, 0x2029, 0x202F,
              0x205F, 0x3000, 0xFEFF}
      \<or> (0x2000 \<le> c \<and> c \<le> 0x200A))"

definition trim :: "nat list \<Rightarrow> nat list" where
  "trim s = rev (dropWhile isWhiteSpace (rev (dropWhile isWhiteSpace s)))"

text \<open>
  \<^verbatim>\<open>String.prototype.toLowerCase\<close> replaces each code point by its lower-case mapping
  in the Unicode Character Database. One mapping depends on the context: capital sigma
  (U+03A3) becomes final sigma (U+03C2) when it is preceded by a cased letter and not
  followed by one, code points that are case-ignorable being skipped on both sides.
  \<open>before\<close> is the text before the code point, nearest first.
\<close>

fun casedNext :: "builtins \<Rightarrow> nat list \<Rightarrow> bool" where
  "casedNext js [] = False"
| "casedNext js (c # cs) = (cased js c \<or> (caseIgnorable js c \<and> casedNext js cs))"

definition finalSigma :: "builtins \<Rightarrow> nat list \<Rightarrow> nat list \<Rightarrow> bool" where
  "finalSigma js before after = (casedNext js before \<and> \<not> casedNext js after)"

fun lowerFrom :: "builtins \<Rightarrow> nat list \<Rightarrow> nat list \<Rightarrow> nat list" where
  "lowerFrom js before [] = []"
| "lowerFrom js before (c # cs) =
     (if c = 0x3A3 \<and> finalSigma js before cs then [0x3C2] else lowercaseMapping js c)
       @ lowerFrom js (c # before) cs"

definition toLowerCase :: "builtins \<Rightarrow> nat list \<Rightarrow> nat list" where
  "toLowerCase js s = lowerFrom js [] s"

section \<open>Trip key encoder\<close>

text \<open>
  \<^verbatim>\<open>function getRouteKey(origen, destino, fecha, horario)\<close>:
  \<^verbatim>\<open>`${(origen || "").trim().toLowerCase()}|${(destino || "").trim().toLowerCase()}|${fecha}|${horario}`\<close>.
  Every caller has checked that the four arguments are truthy; \<open>fecha\<close> and \<open>horario\<close> are
  interpolated as they are. \<open>normalized\<close> is \<^verbatim>\<open>.trim().toLowerCase()\<close> on the encoded
  string.
\<close>

definition normalized :: "builtins \<Rightarrow> string \<Rightarrow> string" where
  "normalized js s = utf8 (toLowerCase js (trim (utf8_decode s)))"

definition getRouteKey ::
  "builtins \<Rightarrow> string option \<Rightarrow> string option \<Rightarrow> string \<Rightarrow> string \<Rightarrow> string" where
  "getRouteKey js origen destino fecha horario =
     normalized js (orElse origen '''') @ ''|'' @
     normalized js (orElse destino '''') @ ''|'' @ fecha @ ''|'' @ horario"

section \<open>Seat ledger\<close>

text \<open>
  \<^verbatim>\<open>bookedSeatsByRoute\<close> is a \<^verbatim>\<open>Map\<close> from route key to a \<^verbatim>\<open>Set\<close>. A JavaScript set
  holds any value, and \<^verbatim>\<open>has\<close> compares without coercion, so the members are \<open>jsval\<close>.
  \<^verbatim>\<open>saveBookings\<close> (\<^verbatim>\<open>utils/dataStore.js\<close>) writes a snapshot of the map to disk and
  catches its own errors; the model follows the map in memory. In \<open>bookSeat\<close> the
  entry of the key exists once the empty set has been stored, so the lookup that follows
  finds it.
\<close>

type_synonym ledger = "string \<rightharpoonup> jsval set"

definition isSeatBooked ::
  "builtins \<Rightarrow> ledger \<Rightarrow> string option \<Rightarrow> string option \<Rightarrow> string \<Rightarrow> string \<Rightarrow> jsval
     \<Rightarrow> bool" where
  "isSeatBooked js bookedSeatsByRoute origen destino fecha horario asiento =
     (let key = getRouteKey js origen destino fecha horario in
      case bookedSeatsByRoute key of
        None \<Rightarrow> False
      | Some seats \<Rightarrow> JStr (String_js js asiento) \<in> seats)"

definition bookSeat ::
  "builtins \<Rightarrow> ledger \<Rightarrow> string option \<Rightarrow> string option \<Rightarrow> string \<Rightarrow> string \<Rightarrow> jsval
     \<Rightarrow> ledger" where
  "bookSeat js bookedSeatsByRoute origen destino fecha horario asiento =
     (let key = getRouteKey js origen destino fecha horario;
          m = (if bookedSeatsByRoute key = None then bookedSeatsByRoute(key \<mapsto> {})
               else bookedSeatsByRoute)
      in case m key of
           None \<Rightarrow> m
         | Some seats \<Rightarrow> m(key \<mapsto> insert (JStr (String_js js asiento)) seats))"

section \<open>Routes, tickets and the server state\<close>

text \<open>
  \<^verbatim>\<open>availableRoutes\<close> is an object keyed by \<^verbatim>\<open>`${origen}-${destino}`\<close>; a route carries
  \<open>basePrice\<close> and a list of schedules, each with a departure \<open>time\<close> and a \<open>price\<close>.
  Prices are JavaScript numbers; here they are rationals, on which the arithmetic of the
  handlers (\<^verbatim>\<open>* 100\<close>, \<^verbatim>\<open>/ 100\<close>, \<^verbatim>\<open>Math.round\<close>) is exact.
\<close>

record schedule =
  sched_id :: int
  time :: string
  arrival :: string
  sched_type :: string
  price :: rat

record route =
  duration :: string
  distance :: string
  basePrice :: rat
  schedules :: "schedule list"

text \<open>The ticket stored by the confirmation handler (\<^verbatim>\<open>ticketData\<close>).\<close>

record ticket =
  sessionId :: string
  t_nombre :: string
  t_origen :: string
  t_destino :: string
  t_asiento :: string
  t_horario :: string
  t_fecha :: string
  t_precio :: "rat option"
  amountPaid :: rat
  t_currency :: string
  createdAt :: string
  paymentStatus :: string

record server_state =
  availableRoutes :: "string \<rightharpoonup> route"
  bookedSeatsByRoute :: ledger
  ticketDatabase :: "string \<rightharpoonup> ticket"

text \<open>\<^verbatim>\<open>Math.round\<close>: the nearest integer, halves towards \<open>+\<infinity>\<close>.\<close>

definition Math_round :: "rat \<Rightarrow> int" where
  "Math_round x = \<lfloor>x + 1 / 2\<rfloor>"

text \<open>\<^verbatim>\<open>Array.prototype.find\<close>: the first element that satisfies the predicate.\<close>

fun find_js :: "('a \<Rightarrow> bool) \<Rightarrow> 'a list \<Rightarrow> 'a option" where
  "find_js P [] = None"
| "find_js P (x # xs) = (if P x then Some x else find_js P xs)"

section \<open>Responses\<close>

text \<open>
  A response is an HTTP status and a JSON body. The error bodies are
  \<^verbatim>\<open>{ error: message }\<close>; each message of the handlers is a constructor (the messages
  are written here without their accents):
  \<^item> \<open>FaltanDatos\<close>: 400, "Faltan datos requeridos (...)";
  \<^item> \<open>AsientoNoDisponible\<close>: 409, "El asiento seleccionado no esta disponible";
  \<^item> \<open>RutaNoValida\<close>: 400, "Ruta no valida";
  \<^item> \<open>ErrorInterno m\<close>: 500, "Error interno del servidor: " followed by \<open>m\<close>;
  \<^item> \<open>FaltaSessionId\<close>: 400, "Falta session_id";
  \<^item> \<open>SesionNoEncontrada\<close>: 404, "Sesion no encontrada";
  \<^item> \<open>PagoNoConfirmado\<close>: 402, "Pago no confirmado";
  \<^item> \<open>DatosIncompletos\<close>: 500, "Datos de sesion incompletos";
  \<^item> \<open>ErrorVerificando\<close>: 500, "Error verificando el pago";
  \<^item> \<open>FaltanParametros\<close>: 400, "Faltan parametros requeridos";
  \<^item> \<open>BoletoNoEncontrado\<close>: 404, "Boleto no encontrado".
  The successful bodies are \<^verbatim>\<open>{ url }\<close>,
  \<^verbatim>\<open>{ status: "paid", sessionId, amountTotal, currency, boleto }\<close>,
  \<^verbatim>\<open>{ occupiedSeats }\<close> and the stored ticket.
\<close>

datatype error_body =
    FaltanDatos | AsientoNoDisponible | RutaNoValida | ErrorInterno string
  | FaltaSessionId | SesionNoEncontrada | PagoNoConfirmado | DatosIncompletos
  | ErrorVerificando | FaltanParametros | BoletoNoEncontrado

record boleto =
  b_nombre :: string
  b_origen :: string
  b_destino :: string
  b_asiento :: string
  b_horario :: string
  b_fecha :: string

datatype body =
    Error error_body
  | Url string
  | Paid string int string boleto
  | OccupiedSeats "jsval set"
  | Ticket ticket

record response =
  status :: nat
  json :: body

definition reply :: "nat \<Rightarrow> body \<Rightarrow> response" where
  "reply code b = \<lparr>status = code, json = b\<rparr>"

section \<open>Opening a checkout session\<close>

text \<open>The body of \<^verbatim>\<open>POST /api/create-checkout-session\<close>.\<close>

record request =
  nombre :: "string option"
  tipoDocumento :: "string option"
  numeroDocumento :: "string option"
  origen :: "string option"
  destino :: "string option"
  asiento :: jsval
  horario :: "string option"
  fecha :: "string option"
  precio :: jsval
  email :: "string option"
  telefono :: "string option"
  paymentMethod :: "string option"

text \<open>The metadata attached to a payment session; the provider stores and returns text.\<close>

record metadata =
  m_nombre :: "string option"
  m_tipoDocumento :: "string option"
  m_numeroDocumento :: "string option"
  m_origen :: "string option"
  m_destino :: "string option"
  m_asiento :: "string option"
  m_horario :: "string option"
  m_fecha :: "string option"
  m_precio :: "string option"
  m_email :: "string option"
  m_telefono :: "string option"
  m_paymentMethod :: "string option"

datatype method_options = NoOptions | OxxoExpiresAfterDays nat | CustomerBalanceBankTransfer

text \<open>The argument of \<^verbatim>\<open>stripe.checkout.sessions.create\<close> (one line item).\<close>

record sessionConfig =
  payment_method_types :: "string list"
  mode :: string
  currency :: string
  product_name :: string
  product_description :: string
  unit_amount :: int
  quantity :: nat
  success_url :: string
  cancel_url :: string
  metadata :: metadata
  customer_email :: "string option"
  payment_method_options :: method_options

text \<open>A text field inside a template literal: \<^verbatim>\<open>`${x}`\<close>.\<close>

fun interp :: "string option \<Rightarrow> string" where
  "interp None = ''undefined''"
| "interp (Some s) = s"

text \<open>
  The first test of the handler:
  \<^verbatim>\<open>!nombre || !origen || !destino || !asiento || !horario || !fecha || !numeroDocumento\<close>.
\<close>

definition missingRequired :: "request \<Rightarrow> bool" where
  "missingRequired req =
     (\<not> truthyS (nombre req) \<or> \<not> truthyS (origen req) \<or> \<not> truthyS (destino req)
      \<or> \<not> truthy (asiento req) \<or> \<not> truthyS (horario req) \<or> \<not> truthyS (fecha req)
      \<or> \<not> truthyS (numeroDocumento req))"

text \<open>The early test \<^verbatim>\<open>isSeatBooked(origen, destino, fecha, horario, asiento)\<close>.\<close>

definition seatTaken :: "builtins \<Rightarrow> server_state \<Rightarrow> request \<Rightarrow> bool" where
  "seatTaken js st req =
     isSeatBooked js (bookedSeatsByRoute st) (origen req) (destino req)
       (interp (fecha req)) (interp (horario req)) (asiento req)"

text \<open>\<^verbatim>\<open>const routeKey = `${origen}-${destino}`\<close>.\<close>

definition routeKeyOf :: "request \<Rightarrow> string" where
  "routeKeyOf req = interp (origen req) @ ''-'' @ interp (destino req)"

text \<open>\<^verbatim>\<open>routeData.schedules.find(s => s.time === horario)\<close>.\<close>

definition selectedSchedule :: "route \<Rightarrow> string \<Rightarrow> schedule option" where
  "selectedSchedule routeData h = find_js (\<lambda>s. time s = h) (schedules routeData)"

text \<open>\<^verbatim>\<open>selectedSchedule ? selectedSchedule.price : routeData.basePrice\<close>.\<close>

definition finalPrice :: "route \<Rightarrow> string \<Rightarrow> rat" where
  "finalPrice routeData h =
     (case selectedSchedule routeData h of
        Some s \<Rightarrow> price s
      | None \<Rightarrow> basePrice routeData)"

text \<open>The \<^verbatim>\<open>switch (paymentMethod)\<close> that fills \<^verbatim>\<open>paymentMethodTypes\<close>.\<close>

definition paymentMethodTypes :: "string option \<Rightarrow> string list" where
  "paymentMethodTypes pm =
     (if pm = Some ''oxxo'' then [''oxxo'']
      else if pm = Some ''spei'' then [''customer_balance'']
      else if pm = Some ''cash'' then [''oxxo'']
      else [''card''])"

definition paymentMethodOptions :: "string option \<Rightarrow> method_options" where
  "paymentMethodOptions pm =
     (if pm = Some ''spei'' then CustomerBalanceBankTransfer
      else if pm = Some ''oxxo'' \<or> pm = Some ''cash'' then OxxoExpiresAfterDays 3
      else NoOptions)"

text \<open>The object \<^verbatim>\<open>sessionConfig\<close> built inside the \<^verbatim>\<open>try\<close>.\<close>

definition sessionConfigOf :: "builtins \<Rightarrow> string \<Rightarrow> request \<Rightarrow> rat \<Rightarrow> sessionConfig" where
  "sessionConfigOf js baseUrl req final = \<lparr>
     payment_method_types = paymentMethodTypes (paymentMethod req),
     mode = ''payment'',
     currency = ''mxn'',
     product_name =
       ''TransBus: '' @ interp (origen req) @ '' '' @ [CHR 0xE2, CHR 0x86, CHR 0x92]
         @ '' '' @ interp (destino req),
     product_description =
       ''Viaje del '' @ interp (fecha req) @ '' a las '' @ interp (horario req)
         @ '' - Asiento '' @ String_js js (asiento req) @ [CHR 0x0A]
         @ ''Pasajero: '' @ interp (nombre req) @ [CHR 0x0A]
         @ ''Documento: '' @ interp (tipoDocumento req) @ '' ''
         @ interp (numeroDocumento req),
     unit_amount = Math_round (final * 100),
     quantity = 1,
     success_url = baseUrl @ ''/index.html?success=true&session_id={CHECKOUT_SESSION_ID}'',
     cancel_url = baseUrl @ ''/index.html?canceled=true'',
     metadata = \<lparr>
       m_nombre = nombre req,
       m_tipoDocumento = Some (orElse (tipoDocumento req) ''N/A''),
       m_numeroDocumento = numeroDocumento req,
       m_origen = origen req,
       m_destino = destino req,
       m_asiento = Some (String_js js (asiento req)),
       m_horario = horario req,
       m_fecha = fecha req,
       m_precio = Some (numToString js final),
       m_email = Some (orElse (email req) ''N/A''),
       m_telefono = Some (orElse (telefono req) ''N/A''),
       m_paymentMethod = Some (orElse (paymentMethod req) ''card'')\<rparr>,
     customer_email = (if truthyS (email req) then email req else None),
     payment_method_options = paymentMethodOptions (paymentMethod req)\<rparr>"

text \<open>
  What a call of the handler leaves behind: the response, the session configurations it
  sent to the payment provider, and the server state.
\<close>

record outcome =
  response :: response
  sent :: "sessionConfig list"
  state :: server_state

text \<open>
  The handler of \<^verbatim>\<open>POST /api/create-checkout-session\<close> in \<^verbatim>\<open>src/server.js\<close>.
  \<open>stripe_create\<close> is the payment provider: it returns the URL of the new session
  (\<open>Inr\<close>) or throws with a message (\<open>Inl\<close>). \<open>baseUrl\<close> is
  \<^verbatim>\<open>process.env.FRONTEND_BASE_URL || `${req.protocol}://${req.get("host")}`\<close>.
\<close>

definition createCheckoutSession ::
  "builtins \<Rightarrow> (sessionConfig \<Rightarrow> string + string) \<Rightarrow> string \<Rightarrow> server_state \<Rightarrow> request
     \<Rightarrow> outcome" where
  "createCheckoutSession js stripe_create baseUrl st req =
     (if missingRequired req
      then \<lparr>response = reply 400 (Error FaltanDatos), sent = [], state = st\<rparr>
      else if seatTaken js st req
      then \<lparr>response = reply 409 (Error AsientoNoDisponible), sent = [], state = st\<rparr>
      else
        case availableRoutes st (routeKeyOf req) of
          None \<Rightarrow> \<lparr>response = reply 400 (Error RutaNoValida), sent = [], state = st\<rparr>
        | Some routeData \<Rightarrow>
            let config =
                  sessionConfigOf js baseUrl req (finalPrice routeData (interp (horario req)))
            in (case stripe_create config of
                  Inr url \<Rightarrow> \<lparr>response = reply 200 (Url url), sent = [config], state = st\<rparr>
                | Inl message \<Rightarrow>
                    \<lparr>response = reply 500 (Error (ErrorInterno message)), sent = [config],
                     state = st\<rparr>))"

section \<open>Confirming a checkout session\<close>

text \<open>What \<^verbatim>\<open>stripe.checkout.sessions.retrieve\<close> returns.\<close>

record session =
  s_id :: string
  payment_status :: string
  s_metadata :: "metadata option"
  amount_total :: int
  s_currency :: string

text \<open>\<^verbatim>\<open>session.metadata || {}\<close>.\<close>

definition noMetadata :: metadata where
  "noMetadata = \<lparr>m_nombre = None, m_tipoDocumento = None, m_numeroDocumento = None,
     m_origen = None, m_destino = None, m_asiento = None, m_horario = None, m_fecha = None,
     m_precio = None, m_email = None, m_telefono = None, m_paymentMethod = None\<rparr>"

definition metadataOf :: "session \<Rightarrow> metadata" where
  "metadataOf s = (case s_metadata s of None \<Rightarrow> noMetadata | Some m \<Rightarrow> m)"

text \<open>\<^verbatim>\<open>!nombre || !origen || !destino || !asiento || !horario || !fecha\<close> on the metadata.\<close>

definition incomplete :: "metadata \<Rightarrow> bool" where
  "incomplete md =
     (\<not> truthyS (m_nombre md) \<or> \<not> truthyS (m_origen md) \<or> \<not> truthyS (m_destino md)
      \<or> \<not> truthyS (m_asiento md) \<or> \<not> truthyS (m_horario md) \<or> \<not> truthyS (m_fecha md))"

text \<open>
  \<^verbatim>\<open>if (!isSeatBooked(...)) { bookSeat(...); }\<close> with the trip and seat of the metadata.
\<close>

definition reserve :: "builtins \<Rightarrow> ledger \<Rightarrow> metadata \<Rightarrow> ledger" where
  "reserve js led md =
     (if \<not> isSeatBooked js led (m_origen md) (m_destino md) (interp (m_fecha md))
             (interp (m_horario md)) (JStr (interp (m_asiento md)))
      then bookSeat js led (m_origen md) (m_destino md) (interp (m_fecha md))
             (interp (m_horario md)) (JStr (interp (m_asiento md)))
      else led)"

text \<open>The object \<^verbatim>\<open>ticketData\<close>; \<open>now\<close> is \<^verbatim>\<open>new Date().toISOString()\<close>.\<close>

definition ticketDataOf :: "builtins \<Rightarrow> string \<Rightarrow> session \<Rightarrow> ticket" where
  "ticketDataOf js now s =
     (let md = metadataOf s in \<lparr>
        sessionId = s_id s,
        t_nombre = interp (m_nombre md),
        t_origen = interp (m_origen md),
        t_destino = interp (m_destino md),
        t_asiento = interp (m_asiento md),
        t_horario = interp (m_horario md),
        t_fecha = interp (m_fecha md),
        t_precio = parseFloat js (m_precio md),
        amountPaid = of_int (amount_total s) / 100,
        t_currency = s_currency s,
        createdAt = now,
        paymentStatus = ''paid''\<rparr>)"

text \<open>The body of the successful response.\<close>

definition paidBody :: "session \<Rightarrow> body" where
  "paidBody s =
     (let md = metadataOf s in
      Paid (s_id s) (amount_total s) (s_currency s)
        \<lparr>b_nombre = interp (m_nombre md), b_origen = interp (m_origen md),
         b_destino = interp (m_destino md), b_asiento = interp (m_asiento md),
         b_horario = interp (m_horario md), b_fecha = interp (m_fecha md)\<rparr>)"

text \<open>
  The handler of \<^verbatim>\<open>GET /api/checkout/session\<close> in \<^verbatim>\<open>src/server.js\<close>.
  \<open>stripe_retrieve\<close> returns the session, nothing, or throws (\<open>Inl\<close>).
  \<^verbatim>\<open>saveTickets\<close> writes a snapshot to disk and catches its own errors, like
  \<^verbatim>\<open>saveBookings\<close>. The handler sends nothing to \<^verbatim>\<open>sessions.create\<close>.
  The handler of \<^verbatim>\<open>src/Backend/server.js\<close> is the same code without the snapshots.
\<close>

definition checkoutSession ::
  "builtins \<Rightarrow> (string \<Rightarrow> string + session option) \<Rightarrow> string \<Rightarrow> server_state
     \<Rightarrow> string option \<Rightarrow> outcome" where
  "checkoutSession js stripe_retrieve now st session_id =
     (if \<not> truthyS session_id
      then \<lparr>response = reply 400 (Error FaltaSessionId), sent = [], state = st\<rparr>
      else
        case stripe_retrieve (interp session_id) of
          Inl message \<Rightarrow> \<lparr>response = reply 500 (Error ErrorVerificando), sent = [], state = st\<rparr>
        | Inr None \<Rightarrow> \<lparr>response = reply 404 (Error SesionNoEncontrada), sent = [], state = st\<rparr>
        | Inr (Some s) \<Rightarrow>
            if payment_status s \<noteq> ''paid''
            then \<lparr>response = reply 402 (Error PagoNoConfirmado), sent = [], state = st\<rparr>
            else if incomplete (metadataOf s)
            then \<lparr>response = reply 500 (Error DatosIncompletos), sent = [], state = st\<rparr>
            else
              \<lparr>response = reply 200 (paidBody s),
               sent = [],
               state = st\<lparr>
                 bookedSeatsByRoute := reserve js (bookedSeatsByRoute st) (metadataOf s),
                 ticketDatabase := (ticketDatabase st)(s_id s \<mapsto> ticketDataOf js now s)\<rparr>\<rparr>)"

section \<open>The other handlers that read the ledger and the tickets\<close>

text \<open>
  \<^verbatim>\<open>GET /api/occupied-seats\<close> answers with the members of the set of the key, and
  \<^verbatim>\<open>GET /api/ticket/:sessionId\<close> with the stored ticket. The administration handlers of
  \<^verbatim>\<open>src/server.js\<close> write \<^verbatim>\<open>availableRoutes\<close> only and are left out.
\<close>

definition occupiedSeats ::
  "builtins \<Rightarrow> server_state \<Rightarrow> string option \<Rightarrow> string option \<Rightarrow> string option
     \<Rightarrow> string option \<Rightarrow> outcome" where
  "occupiedSeats js st og dg f h =
     (if \<not> truthyS og \<or> \<not> truthyS dg \<or> \<not> truthyS f \<or> \<not> truthyS h
      then \<lparr>response = reply 400 (Error FaltanParametros), sent = [], state = st\<rparr>
      else
        \<lparr>response = reply 200
           (OccupiedSeats
              (case bookedSeatsByRoute st (getRouteKey js og dg (interp f) (interp h)) of
                 None \<Rightarrow> {}
               | Some seats \<Rightarrow> seats)),
         sent = [], state = st\<rparr>)"

definition getTicket :: "server_state \<Rightarrow> string \<Rightarrow> outcome" where
  "getTicket st sid =
     (case ticketDatabase st sid of
        None \<Rightarrow> \<lparr>response = reply 404 (Error BoletoNoEncontrado), sent = [], state = st\<rparr>
      | Some t \<Rightarrow> \<lparr>response = reply 200 (Ticket t), sent = [], state = st\<rparr>)"

text \<open>
  A request to one of the four handlers, and the collaborators a handler may call.
\<close>

datatype call =
    GetOccupiedSeats "string option" "string option" "string option" "string option"
  | PostCreateCheckoutSession request
  | GetCheckoutSession "string option"
  | GetTicket string

record collaborators =
  c_js :: builtins
  c_create :: "sessionConfig \<Rightarrow> string + string"
  c_retrieve :: "string \<Rightarrow> string + session option"
  c_baseUrl :: string
  c_now :: string

fun handle :: "collaborators \<Rightarrow> server_state \<Rightarrow> call \<Rightarrow> outcome" where
  "handle env st (GetOccupiedSeats og dg f h) = occupiedSeats (c_js env) st og dg f h"
| "handle env st (PostCreateCheckoutSession req) =
     createCheckoutSession (c_js env) (c_create env) (c_baseUrl env) st req"
| "handle env st (GetCheckoutSession sid) =
     checkoutSession (c_js env) (c_retrieve env) (c_now env) st sid"
| "handle env st (GetTicket sid) = getTicket st sid"

section \<open>The booking model\<close>

text \<open>
  \<^verbatim>\<open>src/models/Booking.js\<close>: \<^verbatim>\<open>BookingModel.bookings\<close> is a \<^verbatim>\<open>Map\<close> from reference to
  booking, iterated in insertion order, and \<^verbatim>\<open>BookingModel.nextId\<close> a counter. The map is
  an association list; \<^verbatim>\<open>Map.prototype.set\<close> replaces the value of a key that is
  present where it stands, and appends otherwise.
\<close>

fun map_set :: "'k \<Rightarrow> 'v \<Rightarrow> ('k \<times> 'v) list \<Rightarrow> ('k \<times> 'v) list" where
  "map_set k v [] = [(k, v)]"
| "map_set k v ((k', v') # kvs) =
     (if k' = k then (k, v) # kvs else (k', v') # map_set k v kvs)"

fun map_get :: "('k \<times> 'v) list \<Rightarrow> 'k \<Rightarrow> 'v option" where
  "map_get [] k = None"
| "map_get ((k', v') # kvs) k = (if k' = k then Some v' else map_get kvs k)"

text \<open>
  The argument of \<^verbatim>\<open>createBooking\<close>. It is spread into the new booking after \<open>id\<close> and
  \<open>referencia\<close>, so a \<open>referencia\<close> of its own (the controller passes one) replaces the
  generated one inside the booking, though not as the key of the map.
\<close>

record bookingData =
  d_referencia :: "string option"
  d_nombre :: "string option"
  d_email :: "string option"
  d_telefono :: "string option"
  d_origen :: "string option"
  d_destino :: "string option"
  d_routeId :: jsval
  d_asiento :: jsval
  d_horario :: "string option"
  d_fecha :: "string option"
  d_precio :: "rat option"
  d_estado :: "string option"

record booking =
  bk_id :: nat
  referencia :: string
  bk_nombre :: "string option"
  bk_email :: "string option"
  bk_telefono :: "string option"
  bk_origen :: "string option"
  bk_destino :: "string option"
  routeId :: jsval
  bk_asiento :: jsval
  bk_horario :: "string option"
  bk_fecha :: "string option"
  bk_precio :: "rat option"
  estado :: string
  fechaCreacion :: string
  fechaActualizacion :: string
  version :: nat
  motivoCancelacion :: "string option"
  fechaCancelacion :: "string option"

record booking_store =
  bookings :: "(string \<times> booking) list"
  nextId :: nat

text \<open>
  \<^verbatim>\<open>createBooking(bookingData)\<close>. \<open>generated\<close> is the value of
  \<^verbatim>\<open>generateReference()\<close> (time and \<^verbatim>\<open>Math.random\<close>), \<open>now\<close> the time stamp; the
  time stamps that one call reads are taken to be equal.
\<close>

definition createBooking ::
  "string \<Rightarrow> string \<Rightarrow> booking_store \<Rightarrow> bookingData \<Rightarrow> booking \<times> booking_store" where
  "createBooking generated now store bookingData =
     (let bookingId = nextId store;
          b = \<lparr>
            bk_id = bookingId,
            referencia = (case d_referencia bookingData of None \<Rightarrow> generated | Some r \<Rightarrow> r),
            bk_nombre = d_nombre bookingData,
            bk_email = d_email bookingData,
            bk_telefono = d_telefono bookingData,
            bk_origen = d_origen bookingData,
            bk_destino = d_destino bookingData,
            routeId = d_routeId bookingData,
            bk_asiento = d_asiento bookingData,
            bk_horario = d_horario bookingData,
            bk_fecha = d_fecha bookingData,
            bk_precio = d_precio bookingData,
            estado = orElse (d_estado bookingData) ''pendiente'',
            fechaCreacion = now,
            fechaActualizacion = now,
            version = 1,
            motivoCancelacion = None,
            fechaCancelacion = None\<rparr>
      in (b, \<lparr>bookings = map_set generated b (bookings store), nextId = bookingId + 1\<rparr>))"

text \<open>The fields that \<^verbatim>\<open>cancelBooking\<close> passes to \<^verbatim>\<open>updateBooking\<close>.\<close>

record updateData =
  u_estado :: "string option"
  u_motivoCancelacion :: "string option"
  u_fechaCancelacion :: "string option"

definition updateBooking ::
  "string \<Rightarrow> booking_store \<Rightarrow> string \<Rightarrow> updateData \<Rightarrow> booking option \<times> booking_store" where
  "updateBooking now store ref upd =
     (case map_get (bookings store) ref of
        None \<Rightarrow> (None, store)
      | Some b \<Rightarrow>
          let updatedBooking = b\<lparr>
                estado := (case u_estado upd of None \<Rightarrow> estado b | Some e \<Rightarrow> e),
                motivoCancelacion :=
                  (case u_motivoCancelacion upd of
                     None \<Rightarrow> motivoCancelacion b
                   | Some m \<Rightarrow> Some m),
                fechaCancelacion :=
                  (case u_fechaCancelacion upd of
                     None \<Rightarrow> fechaCancelacion b
                   | Some f \<Rightarrow> Some f),
                fechaActualizacion := now,
                version := version b + 1\<rparr>
          in (Some updatedBooking,
              store\<lparr>bookings := map_set ref updatedBooking (bookings store)\<rparr>))"

text \<open>
  \<^verbatim>\<open>isSeatAvailable(routeId, asiento, fecha)\<close>: the loop over the bookings returns
  \<^verbatim>\<open>false\<close> at the first booking of that seat that is not cancelled. The comparisons
  are \<^verbatim>\<open>===\<close>.
\<close>

fun isSeatAvailable :: "(string \<times> booking) list \<Rightarrow> jsval \<Rightarrow> jsval \<Rightarrow> string option \<Rightarrow> bool" where
  "isSeatAvailable [] rid seat date = True"
| "isSeatAvailable ((k, b) # kbs) rid seat date =
     (if routeId b = rid \<and> bk_asiento b = seat \<and> bk_fecha b = date
         \<and> estado b \<noteq> ''cancelada''
      then False
      else isSeatAvailable kbs rid seat date)"

text \<open>
  \<^verbatim>\<open>cancelBooking(referencia, motivo)\<close>; \<open>None\<close> is the \<^verbatim>\<open>null\<close> it returns for a
  reference that is unknown or already cancelled.
\<close>

definition cancelBooking ::
  "string \<Rightarrow> booking_store \<Rightarrow> string \<Rightarrow> string \<Rightarrow> booking option \<times> booking_store" where
  "cancelBooking now store ref motivo =
     (case map_get (bookings store) ref of
        None \<Rightarrow> (None, store)
      | Some b \<Rightarrow>
          if estado b = ''cancelada'' then (None, store)
          else updateBooking now store ref
                 \<lparr>u_estado = Some ''cancelada'', u_motivoCancelacion = Some motivo,
                  u_fechaCancelacion = Some now\<rparr>)"

section \<open>Predicates of the specification\<close>

text \<open>
  \<open>u\<close> is a capital of the lower-case letter \<open>l\<close> when the Unicode data map \<open>u\<close> to \<open>l\<close>
  and \<open>l\<close> to itself, both are cased letters of the same kind, and neither is the
  capital sigma, whose lower case depends on its place. Two code points are the same
  letter when they are equal or one is a capital of the other. Two strings differ only
  by letter case when their code points are the same letters one by one.
\<close>

definition capitalOf :: "builtins \<Rightarrow> nat \<Rightarrow> nat \<Rightarrow> bool" where
  "capitalOf js u l =
     (lowercaseMapping js u = [l] \<and> lowercaseMapping js l = [l] \<and> u \<noteq> 0x3A3 \<and> l \<noteq> 0x3A3
      \<and> cased js u \<and> cased js l \<and> caseIgnorable js u = caseIgnorable js l
      \<and> \<not> isWhiteSpace u \<and> \<not> isWhiteSpace l)"

definition sameLetter :: "builtins \<Rightarrow> nat \<Rightarrow> nat \<Rightarrow> bool" where
  "sameLetter js a b = (a = b \<or> capitalOf js a b \<or> capitalOf js b a)"

text \<open>
  \<open>s\<close> is the decimal string of the integer \<open>n\<close>: a minus sign when \<open>n\<close> is negative, then
  digits without a leading zero (the single digit 0 apart) whose value is the absolute
  value of \<open>n\<close>.
\<close>

definition isDigit :: "char \<Rightarrow> bool" where
  "isDigit c = (48 \<le> (of_char c :: nat) \<and> (of_char c :: nat) \<le> 57)"

fun digitsValue :: "nat \<Rightarrow> string \<Rightarrow> nat" where
  "digitsValue v [] = v"
| "digitsValue v (c # cs) = digitsValue (10 * v + ((of_char c :: nat) - 48)) cs"

definition isDigits :: "string \<Rightarrow> nat \<Rightarrow> bool" where
  "isDigits ds m =
     (ds \<noteq> [] \<and> list_all isDigit ds \<and> (ds = ''0'' \<or> hd ds \<noteq> CHR ''0'')
      \<and> digitsValue 0 ds = m)"

definition isDecimalOf :: "string \<Rightarrow> int \<Rightarrow> bool" where
  "isDecimalOf s n =
     (if n < 0 then s \<noteq> [] \<and> hd s = CHR ''-'' \<and> isDigits (tl s) (nat (- n))
      else isDigits s (nat n))"

text \<open>Every member of every occupied-seat set is a string.\<close>

definition stringsOnly :: "ledger \<Rightarrow> bool" where
  "stringsOnly led = (\<forall>k seats. led k = Some seats \<longrightarrow> (\<forall>v \<in> seats. \<exists>s. v = JStr s))"

text \<open>
  A booking occupies a seat of a route on a date when it is a booking of exactly that seat
  and is not cancelled.
\<close>

definition occupies :: "booking \<Rightarrow> jsval \<Rightarrow> jsval \<Rightarrow> string option \<Rightarrow> bool" where
  "occupies b rid seat date =
     (routeId b = rid \<and> bk_asiento b = seat \<and> bk_fecha b = date \<and> estado b \<noteq> ''cancelada'')"

section \<open>Example data\<close>

text \<open>
  A route with two schedules, a state that knows it, a well-formed request for seat 12 of
  the 10:00 departure, and collaborators: a provider that opens every session, and two
  paid sessions for that same seat. \<open>exampleJs\<close> prints whole prices and knows the
  Unicode data of the first 256 code points.
\<close>

definition exampleRoute :: route where
  "exampleRoute = \<lparr>
     duration = ''9h 15m'', distance = ''780 km'', basePrice = 25,
     schedules = [
       \<lparr>sched_id = 1, time = ''06:00'', arrival = ''15:15'', sched_type = ''Ejecutivo'',
        price = 35\<rparr>,
       \<lparr>sched_id = 2, time = ''10:00'', arrival = ''19:15'', sched_type = ''Primera Clase'',
        price = 40\<rparr>]\<rparr>"

definition exampleState :: server_state where
  "exampleState = \<lparr>
     availableRoutes = [''Guadalajara-Monterrey'' \<mapsto> exampleRoute],
     bookedSeatsByRoute = Map.empty,
     ticketDatabase = Map.empty\<rparr>"

definition exampleRequest :: request where
  "exampleRequest = \<lparr>
     nombre = Some ''Ana Perez'', tipoDocumento = Some ''INE'',
     numeroDocumento = Some ''PEAA900101'', origen = Some ''Guadalajara'',
     destino = Some ''Monterrey'', asiento = JNum 12, horario = Some ''10:00'',
     fecha = Some ''2024-01-15'', precio = JNum 1, email = None, telefono = None,
     paymentMethod = Some ''card''\<rparr>"

text \<open>
  The Unicode data for the code points up to U+00FF: the capitals \<open>A\<close> to \<open>Z\<close> and
  U+00C0 to U+00DE (the multiplication sign U+00D7 apart) have their lower case 32 places
  later; every other code point is mapped to itself.
\<close>

definition latin1Lower :: "nat \<Rightarrow> nat list" where
  "latin1Lower c =
     (if (0x41 \<le> c \<and> c \<le> 0x5A) \<or> (0xC0 \<le> c \<and> c \<le> 0xDE \<and> c \<noteq> 0xD7) then [c + 32]
      else [c])"

definition latin1Cased :: "nat \<Rightarrow> bool" where
  "latin1Cased c =
     ((0x41 \<le> c \<and> c \<le> 0x5A) \<or> (0x61 \<le> c \<and> c \<le> 0x7A) \<or> c = 0xAA \<or> c = 0xB5
      \<or> c = 0xBA \<or> (0xC0 \<le> c \<and> c \<le> 0xFF \<and> c \<noteq> 0xD7 \<and> c \<noteq> 0xF7))"

definition latin1CaseIgnorable :: "nat \<Rightarrow> bool" where
  "latin1CaseIgnorable c =
     (c \<in> {0x27, 0x2E, 0x3A, 0x5E, 0x60, 0xA8, 0xAD, 0xAF, 0xB4, 0xB7, 0xB8})"

definition exampleJs :: builtins where
  "exampleJs = \<lparr>
     numToString = (\<lambda>r. decimal \<lfloor>r\<rfloor>),
     parseFloat = (\<lambda>s. if s = Some ''40'' then Some 40 else None),
     lowercaseMapping = latin1Lower,
     cased = latin1Cased,
     caseIgnorable = latin1CaseIgnorable\<rparr>"

definition exampleCreate :: "sessionConfig \<Rightarrow> string + string" where
  "exampleCreate config = Inr ''https://checkout.example/pay/cs_test_1''"

definition exampleMetadata :: "string \<Rightarrow> metadata" where
  "exampleMetadata passenger = \<lparr>
     m_nombre = Some passenger, m_tipoDocumento = Some ''INE'',
     m_numeroDocumento = Some ''PEAA900101'', m_origen = Some ''Guadalajara'',
     m_destino = Some ''Monterrey'', m_asiento = Some ''12'', m_horario = Some ''10:00'',
     m_fecha = Some ''2024-01-15'', m_precio = Some ''40'', m_email = Some ''N/A'',
     m_telefono = Some ''N/A'', m_paymentMethod = Some ''card''\<rparr>"

definition session1 :: session where
  "session1 = \<lparr>s_id = ''cs_test_1'', payment_status = ''paid'',
     s_metadata = Some (exampleMetadata ''Ana Perez''), amount_total = 4000,
     s_currency = ''mxn''\<rparr>"

definition session2 :: session where
  "session2 = \<lparr>s_id = ''cs_test_2'', payment_status = ''paid'',
     s_metadata = Some (exampleMetadata ''Luis Gomez''), amount_total = 4000,
     s_currency = ''mxn''\<rparr>"

definition exampleRetrieve :: "string \<Rightarrow> string + session option" where
  "exampleRetrieve sid =
     (if sid = ''cs_test_1'' then Inr (Some session1)
      else if sid = ''cs_test_2'' then Inr (Some session2)
      else Inr None)"

text \<open>
  The state after the first session has been confirmed: seat 12 of the trip is occupied
  and the ticket of \<open>cs_test_1\<close> is stored.
\<close>

definition occupiedState :: server_state where
  "occupiedState = \<lparr>
     availableRoutes = [''Guadalajara-Monterrey'' \<mapsto> exampleRoute],
     bookedSeatsByRoute = [''guadalajara|monterrey|2024-01-15|10:00'' \<mapsto> {JStr ''12''}],
     ticketDatabase =
       [''cs_test_1'' \<mapsto> ticketDataOf exampleJs ''2024-01-10T09:00:00.000Z'' session1]\<rparr>"

text \<open>
  The city of the specification's key example, and the same name in capitals between a
  no-break space (U+00A0, bytes C2 A0) and a byte order mark (U+FEFF, bytes EF BB BF).
  The accented letter is the bytes C3 A9 in lower case and C3 89 as a capital.
\<close>

definition mexicoCity :: string where
  "mexicoCity = ''Ciudad de M'' @ [CHR 0xC3, CHR 0xA9] @ ''xico''"

definition mexicoCityCapitals :: string where
  "mexicoCityCapitals = ''CIUDAD DE M'' @ [CHR 0xC3, CHR 0x89] @ ''XICO''"

definition mexicoCityPadded :: string where
  "mexicoCityPadded = [CHR 0xC2, CHR 0xA0] @ mexicoCityCapitals @ [CHR 0xEF, CHR 0xBB, CHR 0xBF]"

text \<open>The collaborators of the examples.\<close>

definition exampleEnv :: collaborators where
  "exampleEnv = \<lparr>c_js = exampleJs, c_create = exampleCreate, c_retrieve = exampleRetrieve,
     c_baseUrl = ''http://localhost:4242'', c_now = ''2024-01-10T09:00:00.000Z''\<rparr>"

text \<open>A booking of seat 12 on route 3, and a store without bookings.\<close>

definition exampleBookingData :: bookingData where
  "exampleBookingData = \<lparr>
     d_referencia = None, d_nombre = Some ''Ana Perez'', d_email = None, d_telefono = None,
     d_origen = Some ''Guadalajara'', d_destino = Some ''Monterrey'', d_routeId = JNum 3,
     d_asiento = JNum 12, d_horario = Some ''10:00'', d_fecha = Some ''2024-01-15'',
     d_precio = Some 40, d_estado = None\<rparr>"

definition emptyStore :: booking_store where
  "emptyStore = \<lparr>bookings = [], nextId = 1\<rparr>"

text \<open>
  The same booking as the booking controller passes it, with a reference of the
  controller's own, and the store after it has been created; \<open>TBLRA1B2C3XYZ\<close> is the
  reference that \<^verbatim>\<open>generateReference()\<close> returned.
\<close>

definition controllerBookingData :: bookingData where
  "controllerBookingData =
     exampleBookingData\<lparr>d_referencia := Some ''TB8F3K2Q'', d_estado := Some ''pendiente''\<rparr>"

definition bookedStore :: booking_store where
  "bookedStore =
     snd (createBooking ''TBLRA1B2C3XYZ'' ''2024-01-10T09:00:00.000Z'' emptyStore
       controllerBookingData)"

section \<open>Facts about code points, \<open>trim\<close> and \<open>toLowerCase\<close>\<close>

text \<open>
  Decoding inverts the encoding of code points, white space at both ends does not change
  the result of \<open>trim\<close>, and strings that are the same letters one by one have the same
  lower case.
\<close>

lemma byte: "n < 256 \<Longrightarrow> (of_char (char_of (n::nat) :: char) :: nat) = n"
  by simp

lemma decode_step:
  "utf8_decode (b # bs) =
     codePointOf (of_char b) (take (if followers (of_char b) \<le> length bs then followers (of_char b) else 0) bs)
       # utf8_decode (drop (if followers (of_char b) \<le> length bs then followers (of_char b) else 0) bs)"
  by (simp add: Let_def)

lemma cont_mod: "(0x80 + x mod 64) mod 64 = x mod (64::nat)"
proof -
  have "(0x80 + x mod 64) mod 64 = (x mod 64 + 2 * 64) mod (64::nat)" by (simp add: add.commute)
  also have "\<dots> = x mod 64 mod 64" by (rule mod_mult_self1)
  finally show ?thesis by simp
qed

lemma split2: "(c::nat) div 64 * 64 + c mod 64 = c"
  by simp

lemma split3: "(c::nat) div 4096 * 4096 + c div 64 mod 64 * 64 + c mod 64 = c"
proof -
  have "c div 4096 = c div 64 div 64" by (simp add: div_mult2_eq [symmetric])
  then have "c div 4096 * 64 + c div 64 mod 64 = c div 64" by simp
  then have "(c div 4096 * 64 + c div 64 mod 64) * 64 + c mod 64 = c" by simp
  then show ?thesis by (simp add: algebra_simps)
qed

lemma split4:
  "(c::nat) div 262144 * 262144 + c div 4096 mod 64 * 4096 + c div 64 mod 64 * 64 + c mod 64 = c"
proof -
  have "c div 262144 = c div 4096 div 64" by (simp add: div_mult2_eq [symmetric])
  then have "c div 262144 * 64 + c div 4096 mod 64 = c div 4096" by simp
  then have "(c div 262144 * 64 + c div 4096 mod 64) * 4096 + c div 64 mod 64 * 64 + c mod 64 = c"
    using split3 [of c] by simp
  then show ?thesis by (simp add: algebra_simps)
qed

lemma bounds:
  "(c::nat) < 0x800 \<Longrightarrow> c div 64 < 32"
  "(c::nat) < 0x10000 \<Longrightarrow> c div 4096 < 16"
  "(c::nat) < 0x110000 \<Longrightarrow> c div 262144 < 5"
  "x mod 64 < (64::nat)"
  by (simp_all add: less_mult_imp_div_less)

lemma utf8_decode_char:
  assumes "isCodePoint c"
  shows "utf8_decode (utf8_char c @ bs) = c # utf8_decode bs"
proof -
  consider "c < 0x80" | "0x80 \<le> c" "c < 0x800" | "0x800 \<le> c" "c < 0x10000"
    | "0x10000 \<le> c" "c < 0x110000"
    using assms by (auto simp: isCodePoint_def) linarith
  then show ?thesis
  proof cases
    case 1
    then show ?thesis by (simp add: utf8_char_def followers_def)
  next
    case 2
    define b0 where "b0 = 0xC0 + c div 64"
    define b1 where "b1 = 0x80 + c mod 64"
    have r: "b0 < 256" "0xC0 \<le> b0" "b0 < 0xE0" "b1 < 256"
      using bounds(1) [OF 2(2)] bounds(4) [of c] by (simp_all add: b0_def b1_def)
    have m: "b1 mod 64 = c mod 64" by (simp add: b1_def cont_mod)
    have v: "(b0 - 0xC0) * 64 + c mod 64 = c" by (simp add: b0_def)
    have u: "utf8_char c = [char_of b0, char_of b1]"
      using 2 by (simp add: utf8_char_def b0_def b1_def)
    show ?thesis
      unfolding u using r m v
      by (simp add: decode_step followers_def continuation_def del: utf8_decode.simps)
  next
    case 3
    define b0 where "b0 = 0xE0 + c div 4096"
    define b1 where "b1 = 0x80 + c div 64 mod 64"
    define b2 where "b2 = 0x80 + c mod 64"
    have r: "b0 < 256" "0xE0 \<le> b0" "b0 < 0xF0" "b1 < 256" "b2 < 256"
      using bounds(2) [OF 3(2)] bounds(4) [of c] bounds(4) [of "c div 64"]
      by (simp_all add: b0_def b1_def b2_def)
    have m: "b1 mod 64 = c div 64 mod 64" "b2 mod 64 = c mod 64"
      by (simp_all add: b1_def b2_def cont_mod)
    have v: "(b0 - 0xE0) * 4096 + c div 64 mod 64 * 64 + c mod 64 = c"
      using split3 [of c] by (simp add: b0_def)
    have u: "utf8_char c = [char_of b0, char_of b1, char_of b2]"
      using 3 by (simp add: utf8_char_def b0_def b1_def b2_def)
    show ?thesis
      unfolding u using r m v
      by (simp add: decode_step followers_def continuation_def del: utf8_decode.simps)
  next
    case 4
    define b0 where "b0 = 0xF0 + c div 262144"
    define b1 where "b1 = 0x80 + c div 4096 mod 64"
    define b2 where "b2 = 0x80 + c div 64 mod 64"
    define b3 where "b3 = 0x80 + c mod 64"
    have r: "b0 < 256" "0xF0 \<le> b0" "b1 < 256" "b2 < 256" "b3 < 256"
      using bounds(3) [OF 4(2)] bounds(4) [of c] bounds(4) [of "c div 64"]
        bounds(4) [of "c div 4096"]
      by (simp_all add: b0_def b1_def b2_def b3_def)
    have m: "b1 mod 64 = c div 4096 mod 64" "b2 mod 64 = c div 64 mod 64" "b3 mod 64 = c mod 64"
      by (simp_all add: b1_def b2_def b3_def cont_mod)
    have v: "(b0 - 0xF0) * 262144 + c div 4096 mod 64 * 4096 + c div 64 mod 64 * 64 + c mod 64 = c"
      using split4 [of c] by (simp add: b0_def)
    have u: "utf8_char c = [char_of b0, char_of b1, char_of b2, char_of b3]"
      using 4 by (simp add: utf8_char_def b0_def b1_def b2_def b3_def)
    show ?thesis
      unfolding u using r m v
      by (simp add: decode_step followers_def continuation_def del: utf8_decode.simps)
  qed
qed

lemma utf8_decode_utf8: "list_all isCodePoint cs \<Longrightarrow> utf8_decode (utf8 cs) = cs"
  by (induction cs) (simp_all add: utf8_def utf8_decode_char)

lemma dropWhile_ws_pad:
  "list_all isWhiteSpace p \<Longrightarrow> dropWhile isWhiteSpace (p @ c) = dropWhile isWhiteSpace c"
  by (induction p) auto

lemma dropWhile_ws_all: "list_all isWhiteSpace p \<Longrightarrow> dropWhile isWhiteSpace p = []"
  by (induction p) auto

lemma trim_pad:
  assumes p: "list_all isWhiteSpace p" and q: "list_all isWhiteSpace q"
  shows "trim (p @ c @ q) = trim c"
proof -
  have rq: "list_all isWhiteSpace (rev q)" using q by (simp add: list_all_iff)
  have 1: "dropWhile isWhiteSpace (p @ c @ q) = dropWhile isWhiteSpace (c @ q)"
    using p by (rule dropWhile_ws_pad)
  show ?thesis
  proof (cases "list_all isWhiteSpace c")
    case True
    then have "list_all isWhiteSpace (c @ q)" using q by simp
    then have 2: "dropWhile isWhiteSpace (c @ q) = []" by (rule dropWhile_ws_all)
    have 3: "dropWhile isWhiteSpace c = []" using True by (rule dropWhile_ws_all)
    show ?thesis by (simp only: trim_def 1 2 3)
  next
    case False
    then obtain x where "x \<in> set c" "\<not> isWhiteSpace x" by (auto simp: list_all_iff)
    then have "dropWhile isWhiteSpace (c @ q) = dropWhile isWhiteSpace c @ q"
      by auto
    then show ?thesis using rq by (simp add: trim_def 1 dropWhile_ws_pad)
  qed
qed

lemma isWhiteSpace_isCodePoint: "isWhiteSpace c \<Longrightarrow> isCodePoint c"
  by (auto simp: isWhiteSpace_def isCodePoint_def)

lemma sameLetter_ws: "sameLetter js a b \<Longrightarrow> isWhiteSpace a = isWhiteSpace b"
  by (auto simp: sameLetter_def capitalOf_def)

lemma sameLetter_sym: "sameLetter js a b \<Longrightarrow> sameLetter js b a"
  by (auto simp: sameLetter_def)

lemma sameLetter_class:
  "sameLetter js a b \<Longrightarrow> cased js a = cased js b \<and> caseIgnorable js a = caseIgnorable js b"
  by (auto simp: sameLetter_def capitalOf_def)

lemma sameLetter_sigma: "sameLetter js a b \<Longrightarrow> (a = 0x3A3) = (b = 0x3A3)"
  by (auto simp: sameLetter_def capitalOf_def)

lemma sameLetter_lower: "sameLetter js a b \<Longrightarrow> lowercaseMapping js a = lowercaseMapping js b"
  by (auto simp: sameLetter_def capitalOf_def)

lemma sameLetter_dropWhile:
  "list_all2 (sameLetter js) xs ys \<Longrightarrow>
   list_all2 (sameLetter js) (dropWhile isWhiteSpace xs) (dropWhile isWhiteSpace ys)"
  by (induction rule: list_all2_induct) (auto dest: sameLetter_ws)

lemma sameLetter_trim:
  "list_all2 (sameLetter js) xs ys \<Longrightarrow> list_all2 (sameLetter js) (trim xs) (trim ys)"
  by (simp add: trim_def sameLetter_dropWhile)

lemma sameLetter_casedNext:
  "list_all2 (sameLetter js) xs ys \<Longrightarrow> casedNext js xs = casedNext js ys"
  by (induction rule: list_all2_induct) (auto dest: sameLetter_class)

lemma sameLetter_lowerFrom:
  "list_all2 (sameLetter js) xs ys \<Longrightarrow> list_all2 (sameLetter js) before before' \<Longrightarrow>
   lowerFrom js before xs = lowerFrom js before' ys"
proof (induction arbitrary: before before' rule: list_all2_induct)
  case Nil
  then show ?case by simp
next
  case (Cons x xs y ys)
  have ctx: "finalSigma js before xs = finalSigma js before' ys"
    using Cons.hyps(2) Cons.prems by (simp add: finalSigma_def sameLetter_casedNext)
  have here: "(if x = 0x3A3 \<and> finalSigma js before xs then [0x3C2] else lowercaseMapping js x) =
      (if y = 0x3A3 \<and> finalSigma js before' ys then [0x3C2] else lowercaseMapping js y)"
    using sameLetter_sigma [OF Cons.hyps(1)] sameLetter_lower [OF Cons.hyps(1)] ctx by simp
  have rest: "lowerFrom js (x # before) xs = lowerFrom js (y # before') ys"
    using Cons.hyps(1) Cons.prems by (intro Cons.IH) simp
  show ?case using here rest by simp
qed

lemma sameLetter_toLowerCase:
  "list_all2 (sameLetter js) xs ys \<Longrightarrow> toLowerCase js xs = toLowerCase js ys"
  by (simp add: toLowerCase_def sameLetter_lowerFrom)

lemma getRouteKey_date_inj:
  "getRouteKey js og dg f1 h = getRouteKey js og dg f2 h \<Longrightarrow> f1 = f2"
  by (simp add: getRouteKey_def)

lemma normalized_variants:
  assumes "utf8_decode x = p1 @ c1 @ q1" and "utf8_decode y = p2 @ c2 @ q2"
    and "list_all isWhiteSpace p1" "list_all isWhiteSpace q1"
    and "list_all isWhiteSpace p2" "list_all isWhiteSpace q2"
    and "list_all2 (sameLetter js) c1 c2"
  shows "normalized js x = normalized js y"
proof -
  have "toLowerCase js (trim c1) = toLowerCase js (trim c2)"
    using assms(7) by (intro sameLetter_toLowerCase sameLetter_trim)
  then show ?thesis
    using assms(1-6) by (simp add: normalized_def trim_pad)
qed

lemma bookSeat_eq:
  "bookSeat js led og dg f h a =
     led(getRouteKey js og dg f h \<mapsto>
       insert (JStr (String_js js a))
         (case led (getRouteKey js og dg f h) of None \<Rightarrow> {} | Some seats \<Rightarrow> seats))"
  by (auto simp: bookSeat_def Let_def split: option.splits)

section \<open>Key normalization\<close>

text \<open>
  Claim C7. \<open>getRouteKey\<close> is a function of its arguments. Take two origins whose code
  points are a core between white space, and two destinations likewise; when the two
  cores of the origins are the same letters one by one, and so are those of the
  destinations, the two calls with the same date and time give the same key. Two calls
  for the same route and time with distinct dates give distinct keys, and booking a seat
  on the first date leaves every occupancy query on the second date as it was.
\<close>

theorem getRouteKey_normalization:
  "(utf8_decode x1 = p1 @ o1 @ q1 \<and> utf8_decode x2 = p2 @ o2 @ q2 \<and>
    utf8_decode y1 = p3 @ d1 @ q3 \<and> utf8_decode y2 = p4 @ d2 @ q4 \<and>
    list_all isWhiteSpace p1 \<and> list_all isWhiteSpace q1 \<and> list_all isWhiteSpace p2 \<and>
    list_all isWhiteSpace q2 \<and> list_all isWhiteSpace p3 \<and> list_all isWhiteSpace q3 \<and>
    list_all isWhiteSpace p4 \<and> list_all isWhiteSpace q4 \<and>
    list_all2 (sameLetter js) o1 o2 \<and> list_all2 (sameLetter js) d1 d2 \<longrightarrow>
      getRouteKey js (Some x1) (Some y1) f h = getRouteKey js (Some x2) (Some y2) f h)
   \<and> (f1 \<noteq> f2 \<longrightarrow>
        getRouteKey js og dg f1 h \<noteq> getRouteKey js og dg f2 h \<and>
        isSeatBooked js (bookSeat js led og dg f1 h a) og dg f2 h a' =
          isSeatBooked js led og dg f2 h a')"
proof (intro conjI impI)
  assume H: "utf8_decode x1 = p1 @ o1 @ q1 \<and> utf8_decode x2 = p2 @ o2 @ q2 \<and>
    utf8_decode y1 = p3 @ d1 @ q3 \<and> utf8_decode y2 = p4 @ d2 @ q4 \<and>
    list_all isWhiteSpace p1 \<and> list_all isWhiteSpace q1 \<and> list_all isWhiteSpace p2 \<and>
    list_all isWhiteSpace q2 \<and> list_all isWhiteSpace p3 \<and> list_all isWhiteSpace q3 \<and>
    list_all isWhiteSpace p4 \<and> list_all isWhiteSpace q4 \<and>
    list_all2 (sameLetter js) o1 o2 \<and> list_all2 (sameLetter js) d1 d2"
  have e: "orElse (Some x) [] = x" for x by simp
  have "normalized js x1 = normalized js x2"
    using H by (intro normalized_variants [of x1 p1 o1 q1 x2 p2 o2 q2]) simp_all
  moreover have "normalized js y1 = normalized js y2"
    using H by (intro normalized_variants [of y1 p3 d1 q3 y2 p4 d2 q4]) simp_all
  ultimately show "getRouteKey js (Some x1) (Some y1) f h = getRouteKey js (Some x2) (Some y2) f h"
    unfolding getRouteKey_def e by simp
next
  assume "f1 \<noteq> f2"
  then show k: "getRouteKey js og dg f1 h \<noteq> getRouteKey js og dg f2 h"
    using getRouteKey_date_inj by blast
  then show "isSeatBooked js (bookSeat js led og dg f1 h a) og dg f2 h a' =
      isSeatBooked js led og dg f2 h a'"
    by (simp add: isSeatBooked_def bookSeat_eq)
qed

theorem getRouteKey_normalization_witness:
  "utf8_decode mexicoCityPadded = [0xA0] @ utf8_decode mexicoCityCapitals @ [0xFEFF]
   \<and> list_all2 (sameLetter exampleJs) (utf8_decode mexicoCity) (utf8_decode mexicoCityCapitals)
   \<and> getRouteKey exampleJs (Some mexicoCity) (Some ''Guadalajara'') ''2024-01-15'' ''10:00'' =
     getRouteKey exampleJs (Some mexicoCityPadded) (Some '' GUADALAJARA'')
       ''2024-01-15'' ''10:00''
   \<and> ''2024-01-15'' \<noteq> ''2024-01-16''
   \<and> getRouteKey exampleJs (Some mexicoCity) (Some ''Guadalajara'') ''2024-01-15'' ''10:00'' \<noteq>
     getRouteKey exampleJs (Some mexicoCity) (Some ''Guadalajara'') ''2024-01-16'' ''10:00''
   \<and> \<not> isSeatBooked exampleJs
        (bookSeat exampleJs Map.empty (Some mexicoCity) (Some ''Guadalajara'') ''2024-01-15''
           ''10:00'' (JNum 12))
        (Some mexicoCity) (Some ''Guadalajara'') ''2024-01-16'' ''10:00'' (JNum 12)"
proof -
  have x1: "utf8_decode mexicoCity = [] @ utf8_decode mexicoCity @ []" by simp
  have x2: "utf8_decode mexicoCityPadded = [0xA0] @ utf8_decode mexicoCityCapitals @ [0xFEFF]"
    by code_simp
  have y1: "utf8_decode ''Guadalajara'' = [] @ utf8_decode ''Guadalajara'' @ []" by simp
  have y2: "utf8_decode '' GUADALAJARA'' = [0x20] @ utf8_decode ''GUADALAJARA'' @ []"
    by code_simp
  have ws: "list_all isWhiteSpace []" "list_all isWhiteSpace [0xA0]"
    "list_all isWhiteSpace [0xFEFF]" "list_all isWhiteSpace [0x20]"
    by (simp_all add: isWhiteSpace_def)
  have sl: "list_all2 (sameLetter exampleJs) (utf8_decode mexicoCity)
      (utf8_decode mexicoCityCapitals)"
    "list_all2 (sameLetter exampleJs) (utf8_decode ''Guadalajara'') (utf8_decode ''GUADALAJARA'')"
    by code_simp+
  have d: "''2024-01-15'' \<noteq> ''2024-01-16''" by simp
  have free: "\<not> isSeatBooked exampleJs Map.empty (Some mexicoCity) (Some ''Guadalajara'')
      ''2024-01-16'' ''10:00'' (JNum 12)"
    by (simp add: isSeatBooked_def)
  note T = getRouteKey_normalization [where ?x1.0 = mexicoCity and ?p1.0 = "[]"
      and ?o1.0 = "utf8_decode mexicoCity" and ?q1.0 = "[]"
      and ?x2.0 = mexicoCityPadded and ?p2.0 = "[0xA0]"
      and ?o2.0 = "utf8_decode mexicoCityCapitals" and ?q2.0 = "[0xFEFF]"
      and ?y1.0 = "''Guadalajara''" and ?p3.0 = "[]"
      and ?d1.0 = "utf8_decode ''Guadalajara''" and ?q3.0 = "[]"
      and ?y2.0 = "'' GUADALAJARA''" and ?p4.0 = "[0x20]"
      and ?d2.0 = "utf8_decode ''GUADALAJARA''" and ?q4.0 = "[]"
      and js = exampleJs and f = "''2024-01-15''" and h = "''10:00''"
      and ?f1.0 = "''2024-01-15''" and ?f2.0 = "''2024-01-16''" and og = "Some mexicoCity"
      and dg = "Some ''Guadalajara''" and led = Map.empty and a = "JNum 12" and a' = "JNum 12"]
  have A: "getRouteKey exampleJs (Some mexicoCity) (Some ''Guadalajara'') ''2024-01-15''
      ''10:00'' =
      getRouteKey exampleJs (Some mexicoCityPadded) (Some '' GUADALAJARA'')
        ''2024-01-15'' ''10:00''"
    using T x1 x2 y1 y2 ws sl by blast
  have B: "getRouteKey exampleJs (Some mexicoCity) (Some ''Guadalajara'') ''2024-01-15''
      ''10:00'' \<noteq>
      getRouteKey exampleJs (Some mexicoCity) (Some ''Guadalajara'') ''2024-01-16'' ''10:00''
    \<and> isSeatBooked exampleJs
        (bookSeat exampleJs Map.empty (Some mexicoCity) (Some ''Guadalajara'') ''2024-01-15''
           ''10:00'' (JNum 12))
        (Some mexicoCity) (Some ''Guadalajara'') ''2024-01-16'' ''10:00'' (JNum 12) =
      isSeatBooked exampleJs Map.empty (Some mexicoCity) (Some ''Guadalajara'') ''2024-01-16''
        ''10:00'' (JNum 12)"
    using T d by blast
  show ?thesis using x2 sl(1) A B d free by blast
qed

section \<open>Decimal strings\<close>

lemma digit_char: "isDigit c \<Longrightarrow> char_of (48 + ((of_char c :: nat) - 48)) = c"
  by (simp add: isDigit_def)

lemma digit_less: "isDigit c \<Longrightarrow> (of_char c :: nat) - 48 < 10"
  by (auto simp: isDigit_def)

lemma digitsValue_snoc:
  "digitsValue v (cs @ [c]) = 10 * digitsValue v cs + ((of_char c :: nat) - 48)"
  by (induction cs arbitrary: v) simp_all

lemma digitsOf_step: "d < 10 \<Longrightarrow> 0 < m \<Longrightarrow> digitsOf (10 * m + d) = digitsOf m @ [char_of (48 + d)]"
  by (subst digitsOf.simps) simp

lemma digitsOf_small: "d < 10 \<Longrightarrow> digitsOf d = [char_of (48 + d)]"
  by (subst digitsOf.simps) simp

lemma char_48: "char_of (48 :: nat) = CHR ''0''"
  by code_simp

lemma digit_pos:
  assumes "isDigit c" and "c \<noteq> CHR ''0''"
  shows "0 < (of_char c :: nat) - 48"
proof (rule ccontr)
  assume "\<not> 0 < (of_char c :: nat) - 48"
  then have "(of_char c :: nat) = 48" using assms(1) by (simp add: isDigit_def)
  then have "char_of (of_char c :: nat) = char_of (48 :: nat)" by simp
  then have "c = CHR ''0''" by (simp add: char_48)
  then show False using assms(2) by simp
qed

lemma digits_unique_pos:
  "ds \<noteq> [] \<Longrightarrow> list_all isDigit ds \<Longrightarrow> hd ds \<noteq> CHR ''0'' \<Longrightarrow>
   digitsOf (digitsValue 0 ds) = ds \<and> 0 < digitsValue 0 ds"
proof (induction ds rule: rev_induct)
  case Nil
  then show ?case by simp
next
  case (snoc c cs)
  have c: "isDigit c" using snoc.prems(2) by simp
  show ?case
  proof (cases "cs = []")
    case True
    then have "c \<noteq> CHR ''0''" using snoc.prems(3) by simp
    then have "0 < (of_char c :: nat) - 48" using c by (intro digit_pos)
    then show ?thesis using True c by (simp add: digitsOf_small digit_less digit_char)
  next
    case False
    then have "digitsOf (digitsValue 0 cs) = cs \<and> 0 < digitsValue 0 cs"
      using snoc.prems by (intro snoc.IH) simp_all
    then show ?thesis
      using c by (simp add: digitsValue_snoc digitsOf_step digit_less digit_char)
  qed
qed

lemma isDigits_unique: "isDigits ds m \<Longrightarrow> ds = digitsOf m"
proof -
  assume a: "isDigits ds m"
  show ?thesis
  proof (cases "ds = ''0''")
    case True
    then have "m = 0" using a by (simp add: isDigits_def)
    then show ?thesis using True digitsOf_small [of 0] by (simp add: char_48)
  next
    case False
    then have "digitsOf (digitsValue 0 ds) = ds"
      using a digits_unique_pos [of ds] by (simp add: isDigits_def)
    then show ?thesis using a by (simp add: isDigits_def)
  qed
qed

lemma digit_of_char: "d < 10 \<Longrightarrow> (of_char (char_of (48 + d :: nat)) :: nat) = 48 + d"
  by simp

lemma digitsOf_props:
  "digitsOf m \<noteq> [] \<and> list_all isDigit (digitsOf m) \<and> digitsValue 0 (digitsOf m) = m
   \<and> (0 < m \<longrightarrow> hd (digitsOf m) \<noteq> CHR ''0'')"
proof (induction m rule: digitsOf.induct)
  case (1 n)
  show ?case
  proof (cases "n < 10")
    case True
    have "0 < n \<Longrightarrow> char_of (48 + n) \<noteq> CHR ''0''"
    proof
      assume "0 < n" and "char_of (48 + n) = CHR ''0''"
      then have "(of_char (char_of (48 + n)) :: nat) = of_char (CHR ''0'')" by simp
      then show False using True \<open>0 < n\<close> by (simp add: digit_of_char)
    qed
    then show ?thesis
      using True by (simp add: digitsOf_small isDigit_def digit_of_char)
  next
    case False
    then have pos: "0 < n div 10" by simp
    have d: "n mod 10 < 10" by simp
    have step: "digitsOf n = digitsOf (n div 10) @ [char_of (48 + n mod 10)]"
      using False by (subst digitsOf.simps) simp
    show ?thesis
      using 1 [OF False] pos d
      by (simp add: step digitsValue_snoc isDigit_def digit_of_char)
  qed
qed

lemma isDigits_digitsOf: "isDigits (digitsOf m) m"
proof (cases "m = 0")
  case True
  then show ?thesis using digitsOf_small [of 0] by (simp add: isDigits_def char_48 isDigit_def)
next
  case False
  then show ?thesis using digitsOf_props [of m] by (simp add: isDigits_def)
qed

lemma isDecimalOf_unique: "isDecimalOf s n \<Longrightarrow> s = decimal n"
  by (cases s) (auto simp: isDecimalOf_def decimal_def dest: isDigits_unique split: if_splits)

lemma isDecimalOf_decimal: "isDecimalOf (decimal n) n"
  by (simp add: isDecimalOf_def decimal_def isDigits_digitsOf)

lemma String_js_safe:
  "\<bar>n\<bar> \<le> 9007199254740991 \<Longrightarrow> isDecimalOf s n \<Longrightarrow> String_js js (JNum n) = s"
  using isDecimalOf_unique [of s n] by (simp add: numberToString_def)

section \<open>Seat identifiers are coerced to strings\<close>

text \<open>
  Claim C10. Let \<open>n\<close> be a safe integer and \<open>s\<close> its decimal string. Then \<^verbatim>\<open>String(n)\<close>
  is \<open>s\<close>; \<open>bookSeat\<close> and \<open>isSeatBooked\<close> do the same with the number \<open>n\<close> and with the
  string \<open>s\<close>, and booking with one makes the query with the other true. \<^verbatim>\<open>String(n)\<close>
  is a decimal string of \<open>n\<close>, so there is such an \<open>s\<close>. \<open>bookSeat\<close> keeps every member of
  every occupied-seat set a string, whatever the seat it is given.
\<close>

theorem seat_string_coercion:
  "(\<bar>n\<bar> \<le> 9007199254740991 \<and> isDecimalOf s n \<longrightarrow>
      String_js js (JNum n) = s
      \<and> bookSeat js led og dg f h (JNum n) = bookSeat js led og dg f h (JStr s)
      \<and> isSeatBooked js led og dg f h (JNum n) = isSeatBooked js led og dg f h (JStr s)
      \<and> isSeatBooked js (bookSeat js led og dg f h (JNum n)) og dg f h (JStr s)
      \<and> isSeatBooked js (bookSeat js led og dg f h (JStr s)) og dg f h (JNum n))
   \<and> (\<bar>n\<bar> \<le> 9007199254740991 \<longrightarrow> isDecimalOf (String_js js (JNum n)) n)
   \<and> (stringsOnly led \<longrightarrow> stringsOnly (bookSeat js led og dg f h a))"
proof (intro conjI impI)
  assume "\<bar>n\<bar> \<le> 9007199254740991 \<and> isDecimalOf s n"
  then have s: "String_js js (JNum n) = s" using String_js_safe [of n s js] by blast
  show "String_js js (JNum n) = s" by (rule s)
  show "bookSeat js led og dg f h (JNum n) = bookSeat js led og dg f h (JStr s)"
    using s by (simp add: bookSeat_eq)
  show "isSeatBooked js led og dg f h (JNum n) = isSeatBooked js led og dg f h (JStr s)"
    using s by (simp add: isSeatBooked_def split: option.splits)
  show "isSeatBooked js (bookSeat js led og dg f h (JNum n)) og dg f h (JStr s)"
    using s by (simp add: isSeatBooked_def bookSeat_eq)
  show "isSeatBooked js (bookSeat js led og dg f h (JStr s)) og dg f h (JNum n)"
    using s by (simp add: isSeatBooked_def bookSeat_eq)
next
  assume "\<bar>n\<bar> \<le> 9007199254740991"
  then show "isDecimalOf (String_js js (JNum n)) n"
    by (simp add: numberToString_def isDecimalOf_decimal)
next
  assume "stringsOnly led"
  then show "stringsOnly (bookSeat js led og dg f h a)"
    by (auto simp: bookSeat_eq stringsOnly_def split: option.splits if_splits)
qed

theorem seat_string_coercion_witness:
  "\<bar>12\<bar> \<le> (9007199254740991 :: int)
   \<and> isDecimalOf ''12'' 12
   \<and> stringsOnly Map.empty
   \<and> String_js exampleJs (JNum 12) = ''12''
   \<and> isSeatBooked exampleJs
        (bookSeat exampleJs Map.empty (Some ''a'') (Some ''b'') ''2024-01-15'' ''10:00'' (JNum 12))
        (Some ''a'') (Some ''b'') ''2024-01-15'' ''10:00'' (JStr ''12'')
   \<and> isSeatBooked exampleJs
        (bookSeat exampleJs Map.empty (Some ''a'') (Some ''b'') ''2024-01-15'' ''10:00''
           (JStr ''12''))
        (Some ''a'') (Some ''b'') ''2024-01-15'' ''10:00'' (JNum 12)
   \<and> stringsOnly
        (bookSeat exampleJs Map.empty (Some ''a'') (Some ''b'') ''2024-01-15'' ''10:00'' (JNum 12))"
proof -
  have b: "\<bar>12\<bar> \<le> (9007199254740991 :: int)" by simp
  have s: "isDecimalOf ''12'' 12" by code_simp
  have e: "stringsOnly Map.empty" by (simp add: stringsOnly_def)
  note T = seat_string_coercion [where n = 12 and s = "''12''" and js = exampleJs
      and led = Map.empty and og = "Some ''a''" and dg = "Some ''b''" and f = "''2024-01-15''"
      and h = "''10:00''" and a = "JNum 12"]
  show ?thesis using T b s e by blast
qed

section \<open>Facts about the checkout handler\<close>

lemma Math_round_int: "Math_round (of_int n) = n"
  unfolding Math_round_def by linarith

lemma missingRequired_precio: "missingRequired (req\<lparr>precio := p\<rparr>) = missingRequired req"
  by (simp add: missingRequired_def)

lemma seatTaken_precio: "seatTaken js st (req\<lparr>precio := p\<rparr>) = seatTaken js st req"
  by (simp add: seatTaken_def)

lemma routeKeyOf_precio: "routeKeyOf (req\<lparr>precio := p\<rparr>) = routeKeyOf req"
  by (simp add: routeKeyOf_def)

lemma sessionConfigOf_precio:
  "sessionConfigOf js base (req\<lparr>precio := p\<rparr>) final = sessionConfigOf js base req final"
  by (simp add: sessionConfigOf_def)

lemma createCheckoutSession_precio:
  "createCheckoutSession js create base st (req\<lparr>precio := p\<rparr>) =
   createCheckoutSession js create base st req"
  by (simp add: createCheckoutSession_def missingRequired_precio seatTaken_precio
      routeKeyOf_precio sessionConfigOf_precio Let_def split: option.splits)

lemma createCheckoutSession_state: "state (createCheckoutSession js create base st req) = st"
  by (simp add: createCheckoutSession_def Let_def split: option.splits sum.splits)

lemma sent_createCheckoutSession:
  "sent (createCheckoutSession js create base st req) =
     (if missingRequired req \<or> seatTaken js st req then []
      else case availableRoutes st (routeKeyOf req) of
             None \<Rightarrow> []
           | Some routeData \<Rightarrow>
               [sessionConfigOf js base req (finalPrice routeData (interp (horario req)))])"
  by (simp add: createCheckoutSession_def Let_def split: option.splits sum.splits)

lemma find_js_Some: "find_js P xs = Some x \<Longrightarrow> x \<in> set xs \<and> P x"
  by (induction xs) (auto split: if_splits)

lemma unit_amount_sessionConfigOf:
  "unit_amount (sessionConfigOf js base req final) = Math_round (final * 100)"
  by (simp add: sessionConfigOf_def)

lemma example_route: "availableRoutes exampleState (routeKeyOf exampleRequest) = Some exampleRoute"
  by (simp add: exampleState_def routeKeyOf_def exampleRequest_def)

lemma example_valid: "\<not> missingRequired exampleRequest"
  by (simp add: missingRequired_def exampleRequest_def)

lemma example_free: "\<not> seatTaken exampleJs exampleState exampleRequest"
  by (simp add: seatTaken_def isSeatBooked_def exampleState_def)

lemma example_key:
  "getRouteKey exampleJs (Some ''Guadalajara'') (Some ''Monterrey'') ''2024-01-15'' ''10:00'' =
   ''guadalajara|monterrey|2024-01-15|10:00''"
  by code_simp

lemma example_seat: "numberToString js 12 = ''12''"
proof -
  have "digitsOf 12 = ''12''" by code_simp
  then show ?thesis by (simp add: numberToString_def decimal_def)
qed

lemma occupied_taken: "seatTaken exampleJs occupiedState exampleRequest"
  by (simp add: seatTaken_def isSeatBooked_def occupiedState_def exampleRequest_def
      example_key example_seat)

section \<open>No price tampering\<close>

text \<open>
  Claim C4. Two requests that differ in the client-supplied \<open>precio\<close> only have the
  same outcome: the same response, the same session configuration sent to the payment
  provider, the same state. When the route has a schedule at the requested time, the
  handler selects a schedule \<open>s\<close> of the route with that time (the first one), and the
  amounts sent are: nothing when the request lacks a required field or its seat is taken,
  and otherwise the price of \<open>s\<close> in cents, \<^verbatim>\<open>Math.round(price * 100)\<close>.
\<close>

theorem no_price_tampering:
  "createCheckoutSession js create base st (req\<lparr>precio := p1\<rparr>) =
   createCheckoutSession js create base st (req\<lparr>precio := p2\<rparr>)
   \<and> (availableRoutes st (routeKeyOf req) = Some routeData \<and>
      selectedSchedule routeData (interp (horario req)) = Some s \<longrightarrow>
        s \<in> set (schedules routeData) \<and> time s = interp (horario req)
        \<and> map unit_amount (sent (createCheckoutSession js create base st (req\<lparr>precio := p1\<rparr>))) =
            (if missingRequired req \<or> seatTaken js st req then []
             else [Math_round (price s * 100)]))"
proof (intro conjI impI)
  show "createCheckoutSession js create base st (req\<lparr>precio := p1\<rparr>) =
   createCheckoutSession js create base st (req\<lparr>precio := p2\<rparr>)"
    by (simp add: createCheckoutSession_precio)
next
  assume H: "availableRoutes st (routeKeyOf req) = Some routeData \<and>
      selectedSchedule routeData (interp (horario req)) = Some s"
  then have "find_js (\<lambda>x. time x = interp (horario req)) (schedules routeData) = Some s"
    by (simp add: selectedSchedule_def)
  from find_js_Some [OF this]
  show "s \<in> set (schedules routeData)" and "time s = interp (horario req)" by simp_all
  show "map unit_amount (sent (createCheckoutSession js create base st (req\<lparr>precio := p1\<rparr>))) =
            (if missingRequired req \<or> seatTaken js st req then []
             else [Math_round (price s * 100)])"
    using H
    by (simp add: createCheckoutSession_precio sent_createCheckoutSession
        unit_amount_sessionConfigOf finalPrice_def)
qed

theorem no_price_tampering_witness:
  "availableRoutes exampleState (routeKeyOf exampleRequest) = Some exampleRoute
   \<and> selectedSchedule exampleRoute (interp (horario exampleRequest)) =
       Some \<lparr>sched_id = 2, time = ''10:00'', arrival = ''19:15'',
             sched_type = ''Primera Clase'', price = 40\<rparr>
   \<and> map unit_amount
       (sent (createCheckoutSession exampleJs exampleCreate ''http://localhost:4242''
          exampleState (exampleRequest\<lparr>precio := JNum 1\<rparr>))) = [4000]
   \<and> createCheckoutSession exampleJs exampleCreate ''http://localhost:4242'' exampleState
       (exampleRequest\<lparr>precio := JNum 1\<rparr>) =
     createCheckoutSession exampleJs exampleCreate ''http://localhost:4242'' exampleState
       (exampleRequest\<lparr>precio := JNum 40\<rparr>)"
proof -
  let ?s = "\<lparr>sched_id = 2, time = ''10:00'', arrival = ''19:15'',
             sched_type = ''Primera Clase'', price = 40\<rparr>"
  have sel: "selectedSchedule exampleRoute (interp (horario exampleRequest)) = Some ?s"
    by (simp add: selectedSchedule_def exampleRoute_def exampleRequest_def)
  note T = no_price_tampering [where js = exampleJs and create = exampleCreate
      and base = "''http://localhost:4242''" and st = exampleState and req = exampleRequest
      and ?p1.0 = "JNum 1" and ?p2.0 = "JNum 40" and routeData = exampleRoute and s = ?s]
  have r: "Math_round 4000 = 4000" using Math_round_int [of 4000] by simp
  have "map unit_amount
       (sent (createCheckoutSession exampleJs exampleCreate ''http://localhost:4242''
          exampleState (exampleRequest\<lparr>precio := JNum 1\<rparr>))) =
     (if missingRequired exampleRequest \<or> seatTaken exampleJs exampleState exampleRequest then []
      else [Math_round (price ?s * 100)])"
    using T example_route sel by blast
  then have amounts: "map unit_amount
       (sent (createCheckoutSession exampleJs exampleCreate ''http://localhost:4242''
          exampleState (exampleRequest\<lparr>precio := JNum 1\<rparr>))) = [4000]"
    using example_valid example_free by (simp add: r)
  show ?thesis using T example_route sel amounts by blast
qed

section \<open>Fare resolution without a matching schedule\<close>

text \<open>
  Claim C5, as stated, fails: for the route of the example and the time 09:00, which no
  schedule has, the sale is not rejected; a session is opened for the base price 25.
\<close>

theorem fare_fallback_counterexample:
  "availableRoutes exampleState (routeKeyOf (exampleRequest\<lparr>horario := Some ''09:00''\<rparr>)) =
     Some exampleRoute
   \<and> selectedSchedule exampleRoute ''09:00'' = None
   \<and> response (createCheckoutSession exampleJs exampleCreate ''http://localhost:4242''
        exampleState (exampleRequest\<lparr>horario := Some ''09:00''\<rparr>)) =
      reply 200 (Url ''https://checkout.example/pay/cs_test_1'')
   \<and> map unit_amount
        (sent (createCheckoutSession exampleJs exampleCreate ''http://localhost:4242''
           exampleState (exampleRequest\<lparr>horario := Some ''09:00''\<rparr>))) = [2500]"
proof -
  let ?req = "exampleRequest\<lparr>horario := Some ''09:00''\<rparr>"
  have route: "availableRoutes exampleState (routeKeyOf ?req) = Some exampleRoute"
    by (simp add: exampleState_def routeKeyOf_def exampleRequest_def)
  have sel: "selectedSchedule exampleRoute ''09:00'' = None"
    by (simp add: selectedSchedule_def exampleRoute_def)
  have valid: "\<not> missingRequired ?req"
    by (simp add: missingRequired_def exampleRequest_def)
  have free: "\<not> seatTaken exampleJs exampleState ?req"
    by (simp add: seatTaken_def isSeatBooked_def exampleState_def)
  have final: "finalPrice exampleRoute ''09:00'' = 25"
    by (simp add: finalPrice_def sel) (simp add: exampleRoute_def)
  have amount: "Math_round 2500 = 2500"
    using Math_round_int [of 2500] by simp
  have resp: "response (createCheckoutSession exampleJs exampleCreate ''http://localhost:4242''
        exampleState ?req) = reply 200 (Url ''https://checkout.example/pay/cs_test_1'')"
    using route valid free by (simp add: createCheckoutSession_def exampleCreate_def)
  have amounts: "map unit_amount
        (sent (createCheckoutSession exampleJs exampleCreate ''http://localhost:4242''
           exampleState ?req)) = [2500]"
    using route valid free
    by (simp add: sent_createCheckoutSession unit_amount_sessionConfigOf final amount)
  show ?thesis using route sel resp amounts by blast
qed

text \<open>
  Claim C5, amended. For a request that has the required fields and whose seat is free:
  when the route does not exist the sale is rejected with 400 \<open>RutaNoValida\<close> and nothing
  is sent to the payment provider; when the route exists but none of its schedules has the
  requested time, the sale is not rejected: a session is requested for the route's
  \<open>basePrice\<close>, and the response is the provider's URL, or 500 when the provider throws.
\<close>

theorem fare_resolution:
  "\<not> missingRequired req \<and> \<not> seatTaken js st req \<longrightarrow>
     (availableRoutes st (routeKeyOf req) = None \<longrightarrow>
        createCheckoutSession js create base st req =
          \<lparr>response = reply 400 (Error RutaNoValida), sent = [], state = st\<rparr>)
     \<and> (availableRoutes st (routeKeyOf req) = Some routeData \<and>
        selectedSchedule routeData (interp (horario req)) = None \<longrightarrow>
          map unit_amount (sent (createCheckoutSession js create base st req)) =
            [Math_round (basePrice routeData * 100)]
          \<and> response (createCheckoutSession js create base st req) =
            (case create (sessionConfigOf js base req (basePrice routeData)) of
               Inr url \<Rightarrow> reply 200 (Url url)
             | Inl message \<Rightarrow> reply 500 (Error (ErrorInterno message))))"
  by (auto simp: createCheckoutSession_def Let_def finalPrice_def unit_amount_sessionConfigOf
      split: sum.splits)

theorem fare_resolution_witness:
  "\<not> missingRequired (exampleRequest\<lparr>horario := Some ''09:00''\<rparr>)
   \<and> \<not> seatTaken exampleJs exampleState (exampleRequest\<lparr>horario := Some ''09:00''\<rparr>)
   \<and> availableRoutes exampleState (routeKeyOf (exampleRequest\<lparr>horario := Some ''09:00''\<rparr>)) =
       Some exampleRoute
   \<and> selectedSchedule exampleRoute (interp (horario (exampleRequest\<lparr>horario := Some ''09:00''\<rparr>)))
       = None
   \<and> map unit_amount
        (sent (createCheckoutSession exampleJs exampleCreate ''http://localhost:4242''
           exampleState (exampleRequest\<lparr>horario := Some ''09:00''\<rparr>))) =
      [Math_round (basePrice exampleRoute * 100)]
   \<and> \<not> missingRequired (exampleRequest\<lparr>destino := Some ''Tijuana''\<rparr>)
   \<and> \<not> seatTaken exampleJs exampleState (exampleRequest\<lparr>destino := Some ''Tijuana''\<rparr>)
   \<and> availableRoutes exampleState (routeKeyOf (exampleRequest\<lparr>destino := Some ''Tijuana''\<rparr>)) = None
   \<and> createCheckoutSession exampleJs exampleCreate ''http://localhost:4242'' exampleState
        (exampleRequest\<lparr>destino := Some ''Tijuana''\<rparr>) =
      \<lparr>response = reply 400 (Error RutaNoValida), sent = [], state = exampleState\<rparr>"
proof -
  let ?late = "exampleRequest\<lparr>horario := Some ''09:00''\<rparr>"
  let ?far = "exampleRequest\<lparr>destino := Some ''Tijuana''\<rparr>"
  have v1: "\<not> missingRequired ?late" by (simp add: missingRequired_def exampleRequest_def)
  have f1: "\<not> seatTaken exampleJs exampleState ?late"
    by (simp add: seatTaken_def isSeatBooked_def exampleState_def)
  have r1: "availableRoutes exampleState (routeKeyOf ?late) = Some exampleRoute"
    by (simp add: exampleState_def routeKeyOf_def exampleRequest_def)
  have s1: "selectedSchedule exampleRoute (interp (horario ?late)) = None"
    by (simp add: selectedSchedule_def exampleRoute_def)
  have v2: "\<not> missingRequired ?far" by (simp add: missingRequired_def exampleRequest_def)
  have f2: "\<not> seatTaken exampleJs exampleState ?far"
    by (simp add: seatTaken_def isSeatBooked_def exampleState_def)
  have r2: "availableRoutes exampleState (routeKeyOf ?far) = None"
    by (simp add: exampleState_def routeKeyOf_def exampleRequest_def)
  note L = fare_resolution [where req = ?late and st = exampleState and js = exampleJs
      and create = exampleCreate and base = "''http://localhost:4242''"
      and routeData = exampleRoute]
  note F = fare_resolution [where req = ?far and st = exampleState and js = exampleJs
      and create = exampleCreate and base = "''http://localhost:4242''"
      and routeData = exampleRoute]
  have a: "map unit_amount
        (sent (createCheckoutSession exampleJs exampleCreate ''http://localhost:4242''
           exampleState ?late)) = [Math_round (basePrice exampleRoute * 100)]"
    using L v1 f1 r1 s1 by blast
  have b: "createCheckoutSession exampleJs exampleCreate ''http://localhost:4242'' exampleState
        ?far = \<lparr>response = reply 400 (Error RutaNoValida), sent = [], state = exampleState\<rparr>"
    using F v2 f2 r2 by blast
  show ?thesis using v1 f1 r1 s1 a v2 f2 r2 b by blast
qed

section \<open>Opening a checkout holds no seat\<close>

lemma handle_ledger:
  "bookedSeatsByRoute (state (handle env st c)) \<noteq> bookedSeatsByRoute st \<Longrightarrow>
   \<exists>sid. c = GetCheckoutSession sid"
  by (cases c)
     (auto simp: occupiedSeats_def getTicket_def createCheckoutSession_state
           split: if_splits option.splits)

text \<open>
  Claim C6. Whatever the request and whatever the payment provider answers, the state
  after \<open>createCheckoutSession\<close> is the state before it, so the occupied seats of every
  key are unchanged. Among the handlers, a call that changes the ledger is a call of the
  confirmation handler.
\<close>

theorem startCheckout_holds_no_seat:
  "state (createCheckoutSession js create base st req) = st
   \<and> (bookedSeatsByRoute (state (handle env st c)) \<noteq> bookedSeatsByRoute st \<longrightarrow>
        (\<exists>sid. c = GetCheckoutSession sid))"
  using handle_ledger by (simp add: createCheckoutSession_state)

lemma example_confirm_ledger:
  "bookedSeatsByRoute
     (state (handle exampleEnv exampleState (GetCheckoutSession (Some ''cs_test_1''))))
     ''guadalajara|monterrey|2024-01-15|10:00'' = Some {JStr ''12''}"
  by (simp add: exampleEnv_def checkoutSession_def exampleRetrieve_def session1_def
      incomplete_def metadataOf_def exampleMetadata_def reserve_def isSeatBooked_def
      bookSeat_eq example_key exampleState_def)

theorem startCheckout_holds_no_seat_witness:
  "bookedSeatsByRoute
     (state (handle exampleEnv exampleState (GetCheckoutSession (Some ''cs_test_1'')))) \<noteq>
   bookedSeatsByRoute exampleState
   \<and> (\<exists>sid. GetCheckoutSession (Some ''cs_test_1'') = GetCheckoutSession sid)
   \<and> state (createCheckoutSession exampleJs exampleCreate ''http://localhost:4242''
        exampleState exampleRequest) = exampleState"
proof -
  have "bookedSeatsByRoute exampleState ''guadalajara|monterrey|2024-01-15|10:00'' = None"
    by (simp add: exampleState_def)
  then have changed: "bookedSeatsByRoute
     (state (handle exampleEnv exampleState (GetCheckoutSession (Some ''cs_test_1'')))) \<noteq>
   bookedSeatsByRoute exampleState"
    using example_confirm_ledger by (metis option.distinct(1))
  note T = startCheckout_holds_no_seat [where js = exampleJs and create = exampleCreate
      and base = "''http://localhost:4242''" and st = exampleState and req = exampleRequest
      and env = exampleEnv and c = "GetCheckoutSession (Some ''cs_test_1'')"]
  show ?thesis using T changed by blast
qed

section \<open>The early occupancy guard\<close>

text \<open>
  Claim C8, as stated, fails: a request for an occupied seat that lacks \<open>nombre\<close> is
  answered 400 \<open>FaltanDatos\<close>, not 409, because the required fields are tested first.
\<close>

theorem early_guard_counterexample:
  "seatTaken exampleJs occupiedState (exampleRequest\<lparr>nombre := None\<rparr>)
   \<and> response (createCheckoutSession exampleJs exampleCreate ''http://localhost:4242''
        occupiedState (exampleRequest\<lparr>nombre := None\<rparr>)) = reply 400 (Error FaltanDatos)
   \<and> reply 400 (Error FaltanDatos) \<noteq> reply 409 (Error AsientoNoDisponible)"
proof -
  have "seatTaken exampleJs occupiedState (exampleRequest\<lparr>nombre := None\<rparr>)"
    using occupied_taken by (simp add: seatTaken_def)
  moreover have "missingRequired (exampleRequest\<lparr>nombre := None\<rparr>)"
    by (simp add: missingRequired_def)
  ultimately show ?thesis
    by (simp add: createCheckoutSession_def reply_def)
qed

text \<open>
  Claim C8, amended. A request whose seat is occupied is rejected without any session
  being sent to the payment provider and without any change of state; the response is
  409 \<open>AsientoNoDisponible\<close> when the request has all its required fields, and
  400 \<open>FaltanDatos\<close> otherwise.
\<close>

theorem early_occupancy_guard:
  "seatTaken js st req \<longrightarrow>
     sent (createCheckoutSession js create base st req) = []
     \<and> state (createCheckoutSession js create base st req) = st
     \<and> response (createCheckoutSession js create base st req) =
         (if missingRequired req then reply 400 (Error FaltanDatos)
          else reply 409 (Error AsientoNoDisponible))"
  by (simp add: createCheckoutSession_def)

theorem early_occupancy_guard_witness:
  "seatTaken exampleJs occupiedState exampleRequest
   \<and> \<not> missingRequired exampleRequest
   \<and> createCheckoutSession exampleJs exampleCreate ''http://localhost:4242'' occupiedState
        exampleRequest =
      \<lparr>response = reply 409 (Error AsientoNoDisponible), sent = [], state = occupiedState\<rparr>"
proof -
  note T = early_occupancy_guard [where st = occupiedState and req = exampleRequest
      and js = exampleJs and create = exampleCreate and base = "''http://localhost:4242''"]
  have "sent (createCheckoutSession exampleJs exampleCreate ''http://localhost:4242''
          occupiedState exampleRequest) = []
     \<and> state (createCheckoutSession exampleJs exampleCreate ''http://localhost:4242''
          occupiedState exampleRequest) = occupiedState
     \<and> response (createCheckoutSession exampleJs exampleCreate ''http://localhost:4242''
          occupiedState exampleRequest) = reply 409 (Error AsientoNoDisponible)"
    using T occupied_taken example_valid by simp
  then have "createCheckoutSession exampleJs exampleCreate ''http://localhost:4242'' occupiedState
        exampleRequest =
      \<lparr>response = reply 409 (Error AsientoNoDisponible), sent = [], state = occupiedState\<rparr>"
    by (cases "createCheckoutSession exampleJs exampleCreate ''http://localhost:4242''
          occupiedState exampleRequest") simp
  then show ?thesis using occupied_taken example_valid by blast
qed

section \<open>Facts about the confirmation handler\<close>

lemma isSeatBooked_reserve:
  "isSeatBooked js (reserve js led md) (m_origen md) (m_destino md) (interp (m_fecha md))
     (interp (m_horario md)) (JStr (interp (m_asiento md)))"
  by (simp add: reserve_def) (simp add: isSeatBooked_def bookSeat_eq)

lemma reserve_idem: "reserve js (reserve js led md) md = reserve js led md"
  using isSeatBooked_reserve [of js led md] by (simp add: reserve_def [of js "reserve js led md"])

lemma checkoutSession_paid:
  assumes "retrieve (interp sid) = Inr (Some s)"
    and "status (response (checkoutSession js retrieve t st sid)) = 200"
  shows "checkoutSession js retrieve t st sid =
     \<lparr>response = reply 200 (paidBody s), sent = [],
      state = st\<lparr>bookedSeatsByRoute := reserve js (bookedSeatsByRoute st) (metadataOf s),
                ticketDatabase := (ticketDatabase st)(s_id s \<mapsto> ticketDataOf js t s)\<rparr>\<rparr>"
    and "truthyS sid" and "payment_status s = ''paid''" and "\<not> incomplete (metadataOf s)"
  using assms by (auto simp: checkoutSession_def reply_def split: if_splits)

lemma checkoutSession_paid_again:
  assumes "retrieve (interp sid) = Inr (Some s)"
    and "truthyS sid" and "payment_status s = ''paid''" and "\<not> incomplete (metadataOf s)"
  shows "checkoutSession js retrieve t st sid =
     \<lparr>response = reply 200 (paidBody s), sent = [],
      state = st\<lparr>bookedSeatsByRoute := reserve js (bookedSeatsByRoute st) (metadataOf s),
                ticketDatabase := (ticketDatabase st)(s_id s \<mapsto> ticketDataOf js t s)\<rparr>\<rparr>"
  using assms by (simp add: checkoutSession_def)

lemma ticketDataOf_createdAt: "(ticketDataOf js t1 s)\<lparr>createdAt := t2\<rparr> = ticketDataOf js t2 s"
  by (simp add: ticketDataOf_def Let_def)

section \<open>Idempotent confirmation\<close>

text \<open>
  Claim C2. Let the provider answer the session \<open>s\<close> for \<open>sid\<close>, and let a first
  confirmation succeed. A second confirmation, at any later time \<open>t2\<close>, returns the
  same response, leaves the ledger as the first one left it, and leaves the ticket
  database with the same keys and one ticket under the session id: the first ticket
  with \<open>createdAt\<close> renewed.
\<close>

theorem idempotent_confirm:
  "retrieve (interp sid) = Inr (Some s) \<and>
   status (response (checkoutSession js retrieve t1 st sid)) = 200 \<longrightarrow>
     response (checkoutSession js retrieve t2 (state (checkoutSession js retrieve t1 st sid)) sid)
       = response (checkoutSession js retrieve t1 st sid)
     \<and> response (checkoutSession js retrieve t1 st sid) = reply 200 (paidBody s)
     \<and> bookedSeatsByRoute
         (state (checkoutSession js retrieve t2 (state (checkoutSession js retrieve t1 st sid)) sid))
       = bookedSeatsByRoute (state (checkoutSession js retrieve t1 st sid))
     \<and> ticketDatabase (state (checkoutSession js retrieve t1 st sid)) (s_id s)
       = Some (ticketDataOf js t1 s)
     \<and> ticketDatabase
         (state (checkoutSession js retrieve t2 (state (checkoutSession js retrieve t1 st sid)) sid))
       = (ticketDatabase (state (checkoutSession js retrieve t1 st sid)))
           (s_id s \<mapsto> (ticketDataOf js t1 s)\<lparr>createdAt := t2\<rparr>)
     \<and> dom (ticketDatabase
         (state (checkoutSession js retrieve t2 (state (checkoutSession js retrieve t1 st sid)) sid)))
       = dom (ticketDatabase (state (checkoutSession js retrieve t1 st sid)))"
proof (intro impI, elim conjE)
  assume r: "retrieve (interp sid) = Inr (Some s)"
    and ok: "status (response (checkoutSession js retrieve t1 st sid)) = 200"
  note first = checkoutSession_paid [where retrieve = retrieve and sid = sid, OF r ok]
  let ?st1 = "st\<lparr>bookedSeatsByRoute := reserve js (bookedSeatsByRoute st) (metadataOf s),
                ticketDatabase := (ticketDatabase st)(s_id s \<mapsto> ticketDataOf js t1 s)\<rparr>"
  have s1: "state (checkoutSession js retrieve t1 st sid) = ?st1"
    by (simp add: first(1))
  have second: "checkoutSession js retrieve t2 ?st1 sid =
     \<lparr>response = reply 200 (paidBody s), sent = [],
      state = ?st1\<lparr>bookedSeatsByRoute := reserve js (bookedSeatsByRoute ?st1) (metadataOf s),
                ticketDatabase := (ticketDatabase ?st1)(s_id s \<mapsto> ticketDataOf js t2 s)\<rparr>\<rparr>"
    using r first(2) first(3) first(4)
    by (rule checkoutSession_paid_again [where retrieve = retrieve and sid = sid])
  show "response (checkoutSession js retrieve t2 (state (checkoutSession js retrieve t1 st sid)) sid)
       = response (checkoutSession js retrieve t1 st sid)
     \<and> response (checkoutSession js retrieve t1 st sid) = reply 200 (paidBody s)
     \<and> bookedSeatsByRoute
         (state (checkoutSession js retrieve t2 (state (checkoutSession js retrieve t1 st sid)) sid))
       = bookedSeatsByRoute (state (checkoutSession js retrieve t1 st sid))
     \<and> ticketDatabase (state (checkoutSession js retrieve t1 st sid)) (s_id s)
       = Some (ticketDataOf js t1 s)
     \<and> ticketDatabase
         (state (checkoutSession js retrieve t2 (state (checkoutSession js retrieve t1 st sid)) sid))
       = (ticketDatabase (state (checkoutSession js retrieve t1 st sid)))
           (s_id s \<mapsto> (ticketDataOf js t1 s)\<lparr>createdAt := t2\<rparr>)
     \<and> dom (ticketDatabase
         (state (checkoutSession js retrieve t2 (state (checkoutSession js retrieve t1 st sid)) sid)))
       = dom (ticketDatabase (state (checkoutSession js retrieve t1 st sid)))"
    unfolding s1 second ticketDataOf_createdAt
    by (simp add: first(1) reserve_idem)
qed

lemma example_first_ok:
  "status (response (checkoutSession exampleJs exampleRetrieve ''2024-01-10T09:00:00.000Z''
     exampleState (Some ''cs_test_1''))) = 200"
  by (simp add: checkoutSession_def exampleRetrieve_def session1_def incomplete_def
      metadataOf_def exampleMetadata_def reply_def)

theorem idempotent_confirm_witness:
  "exampleRetrieve (interp (Some ''cs_test_1'')) = Inr (Some session1)
   \<and> status (response (checkoutSession exampleJs exampleRetrieve ''2024-01-10T09:00:00.000Z''
        exampleState (Some ''cs_test_1''))) = 200
   \<and> response (checkoutSession exampleJs exampleRetrieve ''2024-01-10T09:05:00.000Z''
        (state (checkoutSession exampleJs exampleRetrieve ''2024-01-10T09:00:00.000Z''
           exampleState (Some ''cs_test_1''))) (Some ''cs_test_1''))
      = reply 200 (paidBody session1)
   \<and> bookedSeatsByRoute (state (checkoutSession exampleJs exampleRetrieve
        ''2024-01-10T09:05:00.000Z''
        (state (checkoutSession exampleJs exampleRetrieve ''2024-01-10T09:00:00.000Z''
           exampleState (Some ''cs_test_1''))) (Some ''cs_test_1'')))
      = bookedSeatsByRoute (state (checkoutSession exampleJs exampleRetrieve
          ''2024-01-10T09:00:00.000Z'' exampleState (Some ''cs_test_1'')))"
proof -
  have r: "exampleRetrieve (interp (Some ''cs_test_1'')) = Inr (Some session1)"
    by (simp add: exampleRetrieve_def)
  note T = idempotent_confirm [where retrieve = exampleRetrieve and sid = "Some ''cs_test_1''"
      and s = session1 and js = exampleJs and ?t1.0 = "''2024-01-10T09:00:00.000Z''"
      and ?t2.0 = "''2024-01-10T09:05:00.000Z''" and st = exampleState]
  show ?thesis using T r example_first_ok by metis
qed

section \<open>A paid session for an occupied seat\<close>

text \<open>
  Claim C1. In \<open>occupiedState\<close> seat 12 of the trip belongs to session
  \<open>cs_test_1\<close>. Confirming the paid session \<open>cs_test_2\<close> for the same seat answers
  200 with status paid and stores a ticket for \<open>cs_test_2\<close>; the ledger is unchanged.
  The handler has no outcome for a seat conflict: when the seat is occupied it only
  skips \<open>bookSeat\<close>.
\<close>

theorem paid_but_conflicted_gets_ticket:
  "isSeatBooked exampleJs (bookedSeatsByRoute occupiedState) (Some ''Guadalajara'') (Some ''Monterrey'')
     ''2024-01-15'' ''10:00'' (JStr ''12'')
   \<and> ticketDatabase occupiedState ''cs_test_2'' = None
   \<and> response (checkoutSession exampleJs exampleRetrieve ''2024-01-11T08:30:00.000Z''
        occupiedState (Some ''cs_test_2'')) = reply 200 (paidBody session2)
   \<and> ticketDatabase (state (checkoutSession exampleJs exampleRetrieve
        ''2024-01-11T08:30:00.000Z'' occupiedState (Some ''cs_test_2''))) ''cs_test_2''
      = Some (ticketDataOf exampleJs ''2024-01-11T08:30:00.000Z'' session2)
   \<and> bookedSeatsByRoute (state (checkoutSession exampleJs exampleRetrieve
        ''2024-01-11T08:30:00.000Z'' occupiedState (Some ''cs_test_2'')))
      = bookedSeatsByRoute occupiedState"
proof -
  have booked: "isSeatBooked exampleJs (bookedSeatsByRoute occupiedState) (Some ''Guadalajara'')
     (Some ''Monterrey'') ''2024-01-15'' ''10:00'' (JStr ''12'')"
    by (simp add: isSeatBooked_def occupiedState_def example_key)
  have none: "ticketDatabase occupiedState ''cs_test_2'' = None"
    by (simp add: occupiedState_def)
  have r: "exampleRetrieve (interp (Some ''cs_test_2'')) = Inr (Some session2)"
    by (simp add: exampleRetrieve_def)
  have md: "metadataOf session2 = exampleMetadata ''Luis Gomez''"
    by (simp add: metadataOf_def session2_def)
  have c: "\<not> incomplete (metadataOf session2)"
    by (simp add: md incomplete_def exampleMetadata_def)
  have p: "payment_status session2 = ''paid''" by (simp add: session2_def)
  have i: "s_id session2 = ''cs_test_2''" by (simp add: session2_def)
  have res: "reserve exampleJs (bookedSeatsByRoute occupiedState) (metadataOf session2) =
      bookedSeatsByRoute occupiedState"
    using booked by (simp add: reserve_def md exampleMetadata_def)
  have "checkoutSession exampleJs exampleRetrieve ''2024-01-11T08:30:00.000Z'' occupiedState
      (Some ''cs_test_2'') =
     \<lparr>response = reply 200 (paidBody session2), sent = [],
      state = occupiedState\<lparr>
        bookedSeatsByRoute := reserve exampleJs (bookedSeatsByRoute occupiedState) (metadataOf session2),
        ticketDatabase := (ticketDatabase occupiedState)
          (s_id session2 \<mapsto> ticketDataOf exampleJs ''2024-01-11T08:30:00.000Z'' session2)\<rparr>\<rparr>"
    using r _ p c
    by (rule checkoutSession_paid_again [where retrieve = exampleRetrieve
          and sid = "Some ''cs_test_2''"]) simp
  then show ?thesis using booked none by (simp add: res i)
qed

section \<open>Facts about the booking model\<close>

lemma map_get_map_set: "map_get (map_set k v kvs) k = Some v"
  by (induction kvs) auto

lemma map_get_map_set_other: "k' \<noteq> k \<Longrightarrow> map_get (map_set k v kvs) k' = map_get kvs k'"
  by (induction kvs) auto

lemma map_set_map_set: "map_set k w (map_set k v kvs) = map_set k w kvs"
  by (induction kvs) auto

lemma createBooking_referencia:
  "d_referencia bd = Some r \<Longrightarrow> referencia (fst (createBooking generated t store bd)) = r"
  by (simp add: createBooking_def Let_def)

lemma createBooking_key:
  "map_get (bookings (snd (createBooking generated t store bd))) generated =
     Some (fst (createBooking generated t store bd))"
  by (simp add: createBooking_def Let_def map_get_map_set)

lemma createBooking_other_key:
  "r \<noteq> generated \<Longrightarrow>
   map_get (bookings (snd (createBooking generated t store bd))) r = map_get (bookings store) r"
  by (simp add: createBooking_def Let_def map_get_map_set_other)

lemma cancelBooking_unknown:
  "map_get (bookings store) r = None \<Longrightarrow> cancelBooking t store r motivo = (None, store)"
  by (simp add: cancelBooking_def)

lemma cancelBooking_cancelled:
  "map_get (bookings store) r = Some b \<Longrightarrow> estado b = ''cancelada'' \<Longrightarrow>
   cancelBooking t store r motivo = (None, store)"
  by (simp add: cancelBooking_def)

lemma createBooking_cancelBooking:
  "bookings (snd (cancelBooking t2 (snd (createBooking ref t1 store bd)) ref motivo)) =
     map_set ref
       (if estado (fst (createBooking ref t1 store bd)) = ''cancelada''
        then fst (createBooking ref t1 store bd)
        else (fst (createBooking ref t1 store bd))\<lparr>
               estado := ''cancelada'', motivoCancelacion := Some motivo,
               fechaCancelacion := Some t2, fechaActualizacion := t2,
               version := version (fst (createBooking ref t1 store bd)) + 1\<rparr>)
       (bookings store)"
  by (simp add: cancelBooking_def updateBooking_def createBooking_def Let_def
      map_get_map_set map_set_map_set)

lemma isSeatAvailable_iff:
  "isSeatAvailable kbs rid seat date = (\<forall>(k, b) \<in> set kbs. \<not> occupies b rid seat date)"
  by (induction kbs rid seat date rule: isSeatAvailable.induct) (auto simp: occupies_def)

lemma set_map_set: "set (map_set k v kvs) \<subseteq> insert (k, v) (set kvs)"
  by (induction kvs) (auto split: if_splits)

lemma available_map_set:
  "isSeatAvailable kbs rid seat date \<Longrightarrow> \<not> occupies b rid seat date \<Longrightarrow>
   isSeatAvailable (map_set k b kbs) rid seat date"
  using set_map_set [of k b kbs] by (auto simp: isSeatAvailable_iff)

text \<open>
  Cancelling by the key under which \<^verbatim>\<open>createBooking\<close> stored the booking releases
  its seat: a seat that was available before the booking is available again.
\<close>

lemma cancelBooking_releases:
  assumes "isSeatAvailable (bookings store) rid seat date"
  shows "isSeatAvailable
    (bookings (snd (cancelBooking t2 (snd (createBooking ref t1 store bd)) ref motivo)))
    rid seat date"
  unfolding createBooking_cancelBooking
  by (rule available_map_set [OF assms]) (simp add: occupies_def)

section \<open>Release and re-claim\<close>

text \<open>
  Claim C9. Seat 12 of route 3 is available in the empty store. A booking of it is
  created from \<open>controllerBookingData\<close>, which carries a reference of its own, as the
  booking controller passes it. The booking that \<^verbatim>\<open>createBooking\<close> returns shows that
  reference, \<open>TB8F3K2Q\<close>, and the map holds the booking under the generated one,
  \<open>TBLRA1B2C3XYZ\<close>. Cancelling the reference that the booking shows returns \<^verbatim>\<open>null\<close>
  and leaves the store as it is: the seat is still not available. Cancelling the
  generated reference makes the seat available again.
\<close>

theorem cancel_by_shown_reference_misses:
  "isSeatAvailable (bookings emptyStore) (JNum 3) (JNum 12) (Some ''2024-01-15'')
   \<and> referencia (fst (createBooking ''TBLRA1B2C3XYZ'' ''2024-01-10T09:00:00.000Z'' emptyStore
        controllerBookingData)) = ''TB8F3K2Q''
   \<and> map fst (bookings bookedStore) = [''TBLRA1B2C3XYZ'']
   \<and> \<not> isSeatAvailable (bookings bookedStore) (JNum 3) (JNum 12) (Some ''2024-01-15'')
   \<and> cancelBooking ''2024-01-11T09:00:00.000Z'' bookedStore ''TB8F3K2Q''
        ''Cancelacion solicitada'' = (None, bookedStore)
   \<and> \<not> isSeatAvailable
        (bookings (snd (cancelBooking ''2024-01-11T09:00:00.000Z'' bookedStore ''TB8F3K2Q''
           ''Cancelacion solicitada'')))
        (JNum 3) (JNum 12) (Some ''2024-01-15'')
   \<and> isSeatAvailable
        (bookings (snd (cancelBooking ''2024-01-11T09:00:00.000Z'' bookedStore ''TBLRA1B2C3XYZ''
           ''Cancelacion solicitada'')))
        (JNum 3) (JNum 12) (Some ''2024-01-15'')"
proof -
  have free: "isSeatAvailable (bookings emptyStore) (JNum 3) (JNum 12) (Some ''2024-01-15'')"
    by (simp add: emptyStore_def)
  have shown: "referencia (fst (createBooking ''TBLRA1B2C3XYZ'' ''2024-01-10T09:00:00.000Z''
      emptyStore controllerBookingData)) = ''TB8F3K2Q''"
    by (rule createBooking_referencia) (simp add: controllerBookingData_def)
  have keys: "map fst (bookings bookedStore) = [''TBLRA1B2C3XYZ'']"
    by (simp add: bookedStore_def createBooking_def Let_def emptyStore_def)
  have taken: "\<not> isSeatAvailable (bookings bookedStore) (JNum 3) (JNum 12)
      (Some ''2024-01-15'')"
    by (simp add: bookedStore_def createBooking_def Let_def emptyStore_def
        controllerBookingData_def exampleBookingData_def)
  have "map_get (bookings bookedStore) ''TB8F3K2Q'' = map_get (bookings emptyStore) ''TB8F3K2Q''"
    unfolding bookedStore_def by (rule createBooking_other_key) simp
  then have "map_get (bookings bookedStore) ''TB8F3K2Q'' = None"
    by (simp add: emptyStore_def)
  then have miss: "cancelBooking ''2024-01-11T09:00:00.000Z'' bookedStore ''TB8F3K2Q''
      ''Cancelacion solicitada'' = (None, bookedStore)"
    by (rule cancelBooking_unknown)
  have released: "isSeatAvailable
      (bookings (snd (cancelBooking ''2024-01-11T09:00:00.000Z'' bookedStore ''TBLRA1B2C3XYZ''
         ''Cancelacion solicitada'')))
      (JNum 3) (JNum 12) (Some ''2024-01-15'')"
    unfolding bookedStore_def using free by (rule cancelBooking_releases)
  show ?thesis using free shown keys taken released by (simp add: miss)
qed

end
